theory Spec2Isabelle
  imports Complex_Main "HOL-Library.Char_ord" "HOL-Library.List_Lexorder" "HOL-Library.Sublist"
begin

section \<open>Two training scripts as programs over a library\<close>

text \<open>
  The repository holds two scripts: \<^verbatim>\<open>ML/gtsdb/train.py\<close> (script one) and
  \<^verbatim>\<open>ML/mnist/many-classifiers/python.py\<close> (script two). Both are drivers of
  third-party libraries. A script is embedded as a function of the library's behaviour:
  every library function the script calls is a field of a record, returning either a
  value or an exception. What the script does to the outside world (a line printed, a
  library call made, a file written) is an event, and a run produces the list of its
  events in order.

  Python floats are modelled as \<^typ>\<open>real\<close>; arrays of numbers as lists.
\<close>

subsection \<open>Values, exceptions and events\<close>

text \<open>An exception raised by a library call, or by the interpreter.\<close>

datatype error = LibraryError string | KeyError string | NameError string

type_synonym ndarray = "real list list"

text \<open>
  The two model functions of script two (\<^verbatim>\<open>dropout_model\<close>,
  \<^verbatim>\<open>conv_model\<close>) only build a graph through the library; they are passed to
  the estimators by name.
\<close>

datatype model_fn = dropout_model | conv_model

datatype pyval = PInt int | PFloat real | PStr string | PBool bool | PInts "int list"
  | PFn model_fn

text \<open>
  A classifier object as constructed in \<^verbatim>\<open>main\<close>: the class, the positional
  arguments and the keyword arguments of the constructor call.
\<close>

datatype clf = Clf string "pyval list" "(string \<times> pyval) list"

record dense_net_args =
  dn_nb_classes :: nat
  dn_input_shape :: "nat \<times> nat \<times> nat"
  dn_depth :: nat
  dn_nb_dense_block :: nat
  dn_growth_rate :: nat
  dn_nb_filter :: int
  dn_bottleneck :: bool
  dn_reduction :: real
  dn_dropout_rate :: real

record model_checkpoint =
  cb_filepath :: string
  cb_monitor :: string
  cb_save_best_only :: bool
  cb_save_weights_only :: bool

record fit_args =
  fa_x :: ndarray
  fa_y :: ndarray
  fa_batch_size :: nat
  fa_nb_epoch :: nat
  fa_validation_data :: "ndarray \<times> ndarray"
  fa_shuffle :: bool

record image_data_generator =
  featurewise_center :: bool
  samplewise_center :: bool
  featurewise_std_normalization :: bool
  samplewise_std_normalization :: bool
  zca_whitening :: bool
  rotation_range :: real
  width_shift_range :: real
  height_shift_range :: real
  horizontal_flip :: bool
  vertical_flip :: bool

record fit_generator_args =
  fg_flow_x :: ndarray
  fg_flow_y :: ndarray
  fg_flow_batch_size :: nat
  fg_samples_per_epoch :: nat
  fg_nb_epoch :: nat
  fg_validation_data :: "ndarray \<times> ndarray"
  fg_callbacks :: "model_checkpoint list"

datatype event =
    Stdout string
  | Time
  | FetchMldata string
  | Shuffle nat
  | TrainTestSplit real nat
  | Fit clf
  | Predict clf nat
  | ConfusionMatrix clf
  | AccuracyScore clf
  | LoadData
  | ToCategorical nat
  | NpLoad string
  | ImageDimOrdering
  | CreateModel nat "nat \<times> nat \<times> nat"
  | CreateDenseNet dense_net_args
  | Summary
  | Compile string real "string list"
  | AsType
  | ModelFit fit_args
  | NewDatagen image_data_generator
  | DatagenFit nat
  | FitGenerator fit_generator_args
  | FileWrite string "string list list"
  | ModelSave string

text \<open>
  A program reads the events so far and returns a value or an exception, together with
  the events it adds.
\<close>

type_synonym 'a prog = "event list \<Rightarrow> (error + 'a) \<times> event list"

definition returnP :: "'a \<Rightarrow> 'a prog" where
  "returnP x h = (Inr x, [])"

definition raiseP :: "error \<Rightarrow> 'a prog" where
  "raiseP e h = (Inl e, [])"

text \<open>Sequencing: an exception of the first part ends the program there.\<close>

definition bindP :: "'a prog \<Rightarrow> ('a \<Rightarrow> 'b prog) \<Rightarrow> 'b prog" where
  "bindP m f h =
     (case m h of
        (Inl e, es) \<Rightarrow> (Inl e, es)
      | (Inr x, es) \<Rightarrow> (case f x (h @ es) of (r, es') \<Rightarrow> (r, es @ es')))"

text \<open>A library call: the call is recorded, then its value or exception comes back.\<close>

definition call :: "event \<Rightarrow> error + 'a \<Rightarrow> 'a prog" where
  "call ev r h = (r, [ev])"

definition print :: "string \<Rightarrow> unit prog" where
  "print s h = (Inr (), [Stdout s])"

subsection \<open>Script two: the library\<close>

record dataset =
  X :: ndarray
  y :: "real list"

record data =
  train :: dataset
  test :: dataset

text \<open>
  The functions of scikit-learn, skflow, numpy and the standard library that script
  two calls. \<open>fit\<close> returns the fitted state of the classifier (Python mutates the
  object). \<open>clock\<close> is \<^verbatim>\<open>time.time()\<close>, which may depend on everything that
  happened before. \<open>fmt4\<close> is \<^verbatim>\<open>"%0.4f" % v\<close> and \<open>str_float\<close> is
  \<^verbatim>\<open>"%s" % v\<close>.
\<close>

record 'm sklearn =
  fetch_mldata :: "string \<Rightarrow> error + ndarray \<times> real list"
  shuffle :: "ndarray \<Rightarrow> real list \<Rightarrow> nat \<Rightarrow> error + ndarray \<times> real list"
  train_test_split :: "ndarray \<Rightarrow> real list \<Rightarrow> real \<Rightarrow> nat
     \<Rightarrow> error + ndarray \<times> ndarray \<times> real list \<times> real list"
  fit :: "clf \<Rightarrow> ndarray \<Rightarrow> real list \<Rightarrow> error + 'm"
  predict :: "'m \<Rightarrow> ndarray \<Rightarrow> error + real list"
  confusion_matrix :: "real list \<Rightarrow> real list \<Rightarrow> error + string"
  accuracy_score :: "real list \<Rightarrow> real list \<Rightarrow> error + real"
  clock :: "event list \<Rightarrow> real"
  fmt4 :: "real \<Rightarrow> string"
  str_float :: "real \<Rightarrow> string"

definition time_time :: "'m sklearn \<Rightarrow> real prog" where
  "time_time lib h = (Inr (clock lib h), [Time])"

subsection \<open>Script two: \<^verbatim>\<open>get_data\<close>\<close>

text \<open>
  \<^verbatim>\<open>simple = False\<close>, so only the branch that loads the original dataset runs.
  \<^verbatim>\<open>x = x/255.0*2 - 1\<close> scales every entry.
\<close>

definition get_data :: "'m sklearn \<Rightarrow> data prog" where
  "get_data lib =
     bindP (call (FetchMldata ''MNIST original'') (fetch_mldata lib ''MNIST original''))
       (\<lambda>(x0, y0).
     let x1 = map (map (\<lambda>v. v / 255.0 * 2 - 1)) x0 in
     bindP (call (Shuffle 0) (shuffle lib x1 y0 0))
       (\<lambda>(x2, y2).
     bindP (call (TrainTestSplit 0.33 42) (train_test_split lib x2 y2 0.33 42))
       (\<lambda>(x_train, x_test, y_train, y_test).
     returnP \<lparr>train = \<lparr>X = x_train, y = y_train\<rparr>,
              test = \<lparr>X = x_test, y = y_test\<rparr>\<rparr>)))"

subsection \<open>Script two: \<^verbatim>\<open>analyze\<close>\<close>

text \<open>
  \<^verbatim>\<open>range(start, stop, step)\<close> for a positive step, which is all the script
  uses (Python raises on a step of zero; the list is empty here).
\<close>

function py_range :: "nat \<Rightarrow> nat \<Rightarrow> nat \<Rightarrow> nat list" where
  "py_range i stop step =
     (if step = 0 \<or> stop \<le> i then [] else i # py_range (i + step) stop step)"
  by pat_completeness auto
termination
  by (relation "measure (\<lambda>(i, stop, step). stop - i)") auto

declare py_range.simps [simp del]

text \<open>
  The loop of \<^verbatim>\<open>analyze\<close>: \<^verbatim>\<open>X[i:(i + 128)]\<close> is predicted and the
  result appended to \<^verbatim>\<open>predicted\<close>.
\<close>

fun predict_chunks :: "'m sklearn \<Rightarrow> clf \<Rightarrow> 'm \<Rightarrow> ndarray \<Rightarrow> nat list \<Rightarrow> real list
    \<Rightarrow> real list prog" where
  "predict_chunks lib c m xs [] predicted = returnP predicted"
| "predict_chunks lib c m xs (i # is) predicted =
     bindP (call (Predict c i) (predict lib m (take 128 (drop i xs))))
       (\<lambda>predicted_single. predict_chunks lib c m xs is (predicted @ predicted_single))"

record results =
  r_testing_time :: real
  r_accuracy :: real

definition analyze :: "'m sklearn \<Rightarrow> clf \<Rightarrow> 'm \<Rightarrow> data \<Rightarrow> real \<Rightarrow> string \<Rightarrow> results prog" where
  "analyze lib c m d fit_time clf_name =
     bindP (time_time lib) (\<lambda>t0.
     bindP (predict_chunks lib c m (X (test d)) (py_range 0 (length (X (test d))) 128) [])
       (\<lambda>predicted.
     bindP (time_time lib) (\<lambda>t1.
     bindP (print (''Classifier: '' @ clf_name)) (\<lambda>_.
     bindP (print (''Training time: '' @ fmt4 lib fit_time @ ''s'')) (\<lambda>_.
     bindP (print (''Testing time: '' @ fmt4 lib (t1 - t0) @ ''s'')) (\<lambda>_.
     bindP (call (ConfusionMatrix c) (confusion_matrix lib (y (test d)) predicted)) (\<lambda>cm.
     bindP (print (''Confusion matrix:'' @ [CHR 0x0A] @ cm)) (\<lambda>_.
     bindP (call (AccuracyScore c) (accuracy_score lib (y (test d)) predicted)) (\<lambda>acc.
     bindP (print (''Accuracy: '' @ fmt4 lib acc)) (\<lambda>_.
     returnP \<lparr>r_testing_time = t1 - t0, r_accuracy = acc\<rparr>))))))))))"

subsection \<open>Script two: \<^verbatim>\<open>print_website\<close>\<close>

record clf_data =
  training_time :: real
  testing_time :: real
  accuracy :: real

text \<open>
  The dictionary \<^verbatim>\<open>classifier_data\<close> as the list of its items: keys are
  distinct, and assigning to a key that is present replaces its value in place.
\<close>

type_synonym classifier_data = "(string \<times> clf_data) list"

fun dict_set :: "classifier_data \<Rightarrow> string \<Rightarrow> clf_data \<Rightarrow> classifier_data" where
  "dict_set [] k v = [(k, v)]"
| "dict_set ((k', v') # kvs) k v =
     (if k' = k then (k, v) # kvs else (k', v') # dict_set kvs k v)"

definition danger_msg :: string where
  \<open>danger_msg = ''class="danger"''\<close>

definition acc_msg :: "clf_data \<Rightarrow> string" where
  "acc_msg cd = (if accuracy cd < 0.9 then danger_msg else '''')"

definition test_msg :: "clf_data \<Rightarrow> string" where
  "test_msg cd = (if testing_time cd > 5 then danger_msg else '''')"

definition name_cell :: "string \<Rightarrow> string" where
  "name_cell clf_name = [CHR 0x09] @ ''<td>'' @ clf_name @ ''</td>''"

definition accuracy_cell :: "'m sklearn \<Rightarrow> clf_data \<Rightarrow> string" where
  \<open>accuracy_cell lib cd =
     [CHR 0x09] @ ''<td align="right" '' @ acc_msg cd @ ''>''
       @ str_float lib (accuracy cd) @ ''%</td>''\<close>

definition training_cell :: "'m sklearn \<Rightarrow> clf_data \<Rightarrow> string" where
  \<open>training_cell lib cd =
     [CHR 0x09] @ ''<td align="right">'' @ str_float lib (training_time cd) @ ''s</td>''\<close>

definition testing_cell :: "'m sklearn \<Rightarrow> clf_data \<Rightarrow> string" where
  \<open>testing_cell lib cd =
     [CHR 0x09] @ ''<td align="right" '' @ test_msg cd @ ''>''
       @ str_float lib (testing_time cd) @ ''s</td>''\<close>

text \<open>The lines printed for one classifier.\<close>

definition row_lines :: "'m sklearn \<Rightarrow> string \<times> clf_data \<Rightarrow> string list" where
  "row_lines lib item =
     (case item of (clf_name, cd) \<Rightarrow>
        [''<tr>'', name_cell clf_name, accuracy_cell lib cd, training_cell lib cd,
         testing_cell lib cd, ''</tr>''])"

definition table_head :: string where
  "table_head =
     ''<table>'' @ [CHR 0x0A] @
     ''  <thead>'' @ [CHR 0x0A] @
     ''    <tr>'' @ [CHR 0x0A] @
     ''        <th>Classifier</th>'' @ [CHR 0x0A] @
     ''        <th>Accuracy</th>'' @ [CHR 0x0A] @
     ''        <th>Training Time</th>'' @ [CHR 0x0A] @
     ''        <th>Testing Time</th>'' @ [CHR 0x0A] @
     ''    </tr>'' @ [CHR 0x0A] @
     ''  </thead>'' @ [CHR 0x0A] @
     ''  <tbody>''"

text \<open>
  \<^verbatim>\<open>sorted(data.items())\<close> orders the items by key (keys are distinct, so the
  values are never compared); strings compare character by character.
\<close>

definition sorted_items :: "classifier_data \<Rightarrow> classifier_data" where
  "sorted_items d = sort_key fst d"

definition website_lines :: "'m sklearn \<Rightarrow> classifier_data \<Rightarrow> string list" where
  "website_lines lib d =
     [table_head] @ concat (map (row_lines lib) (sorted_items d)) @ [''</tbody>'', ''</table>'']"

fun print_all :: "string list \<Rightarrow> unit prog" where
  "print_all [] = returnP ()"
| "print_all (s # ss) = bindP (print s) (\<lambda>_. print_all ss)"

definition print_website :: "'m sklearn \<Rightarrow> classifier_data \<Rightarrow> unit prog" where
  "print_website lib d = print_all (website_lines lib d)"

subsection \<open>Script two: \<^verbatim>\<open>main\<close>\<close>

definition classifiers :: "(string \<times> clf) list" where
  "classifiers =
     [(''NN 500:200'',
         Clf ''skflow.TensorFlowDNNClassifier'' []
           [(''hidden_units'', PInts [500, 200]), (''n_classes'', PInt 10),
            (''steps'', PInt 20000)]),
      (''NN 500:200 dropout'',
         Clf ''skflow.TensorFlowEstimator'' []
           [(''model_fn'', PFn dropout_model), (''n_classes'', PInt 10),
            (''steps'', PInt 20000)]),
      (''CNN'',
         Clf ''skflow.TensorFlowEstimator'' []
           [(''model_fn'', PFn conv_model), (''n_classes'', PInt 10),
            (''batch_size'', PInt 100), (''steps'', PInt 20000),
            (''learning_rate'', PFloat 0.001)]),
      (''adj. SVM'',
         Clf ''SVC'' []
           [(''probability'', PBool False), (''kernel'', PStr ''rbf''), (''C'', PFloat 2.8),
            (''gamma'', PFloat 0.0073), (''cache_size'', PInt 2000)]),
      (''linear SVM'',
         Clf ''SVC'' []
           [(''kernel'', PStr ''linear''), (''C'', PFloat 0.025), (''cache_size'', PInt 2000)]),
      (''k nn'', Clf ''KNeighborsClassifier'' [PInt 3] []),
      (''Decision Tree'', Clf ''DecisionTreeClassifier'' [] [(''max_depth'', PInt 5)]),
      (''Random Forest'',
         Clf ''RandomForestClassifier'' [] [(''n_estimators'', PInt 50), (''n_jobs'', PInt 10)]),
      (''Random Forest 2'',
         Clf ''RandomForestClassifier'' []
           [(''max_depth'', PInt 5), (''n_estimators'', PInt 10), (''max_features'', PInt 1),
            (''n_jobs'', PInt 10)]),
      (''AdaBoost'', Clf ''AdaBoostClassifier'' [] []),
      (''Naive Bayes'', Clf ''GaussianNB'' [] []),
      (''Gradient Boosting'', Clf ''GradientBoostingClassifier'' [] [])]"

text \<open>
  The loop \<^verbatim>\<open>for clf_name, clf in classifiers\<close>, with the dictionary
  \<^verbatim>\<open>classifier_data\<close> filled so far. \<^verbatim>\<open>examples = 100000\<close> bounds the
  training rows.
\<close>

fun fit_all :: "'m sklearn \<Rightarrow> data \<Rightarrow> (string \<times> clf) list \<Rightarrow> classifier_data
    \<Rightarrow> classifier_data prog" where
  "fit_all lib d [] cdata = returnP cdata"
| "fit_all lib d ((clf_name, c) # rest) cdata =
     bindP (print (replicate 80 (CHR ''#''))) (\<lambda>_.
     bindP (print (''Start fitting '' @ [CHR 0x27] @ clf_name @ [CHR 0x27] @ '' classifier.''))
       (\<lambda>_.
     bindP (time_time lib) (\<lambda>t0.
     bindP (call (Fit c) (fit lib c (take 100000 (X (train d))) (take 100000 (y (train d)))))
       (\<lambda>m.
     bindP (time_time lib) (\<lambda>t1.
     bindP (analyze lib c m d (t1 - t0) clf_name) (\<lambda>an_data.
     fit_all lib d rest
       (dict_set cdata clf_name
          \<lparr>training_time = t1 - t0, testing_time = r_testing_time an_data,
           accuracy = r_accuracy an_data\<rparr>)))))))"

definition main :: "'m sklearn \<Rightarrow> unit prog" where
  "main lib =
     bindP (get_data lib) (\<lambda>d.
     bindP (fit_all lib d classifiers []) (\<lambda>cdata.
     print_website lib cdata))"

text \<open>
  Running the file as a script: the guard \<^verbatim>\<open>__name__ == '__main__'\<close> holds and
  \<^verbatim>\<open>main()\<close> runs from an empty history. The argument vector of the process is
  given and never read.
\<close>

definition script_two :: "string list \<Rightarrow> 'm sklearn \<Rightarrow> (error + unit) \<times> event list" where
  "script_two argv lib = main lib []"

subsection \<open>A small library for concrete runs\<close>

text \<open>
  A library in which every call succeeds: three one-pixel images, a prediction that is
  the sum of a row's pixels, a clock that counts the events so far.
\<close>

definition sample_lib :: "unit sklearn" where
  "sample_lib =
     \<lparr>fetch_mldata = (\<lambda>_. Inr ([[0], [255], [51]], [0, 1, 0])),
      shuffle = (\<lambda>x0 y0 _. Inr (x0, y0)),
      train_test_split = (\<lambda>x0 y0 _ _. Inr (take 2 x0, drop 2 x0, take 2 y0, drop 2 y0)),
      fit = (\<lambda>_ _ _. Inr ()),
      predict = (\<lambda>_ rows. Inr (map sum_list rows)),
      confusion_matrix = (\<lambda>_ _. Inr ''[[1]]''),
      accuracy_score = (\<lambda>y_true y_pred. Inr (if y_true = y_pred then 1 else 0)),
      clock = (\<lambda>h. real (length h)),
      fmt4 = (\<lambda>_. ''0.0000''),
      str_float = (\<lambda>_. ''0.0'')\<rparr>"

definition sample_data :: data where
  "sample_data =
     \<lparr>train = \<lparr>X = [], y = []\<rparr>,
      test = \<lparr>X = replicate 130 [1], y = replicate 130 1\<rparr>\<rparr>"

text \<open>
  The same library with a \<open>predict\<close> that raises on an array without rows, as
  scikit-learn's estimators do, and a test set whose length is a multiple of the chunk
  size.
\<close>

definition strict_lib :: "unit sklearn" where
  "strict_lib =
     sample_lib\<lparr>predict := (\<lambda>_ rows.
        if rows = [] then Inl (LibraryError ''Found array with 0 sample(s)'')
        else Inr (map sum_list rows))\<rparr>"

definition exact_data :: data where
  "exact_data =
     \<lparr>train = \<lparr>X = [], y = []\<rparr>,
      test = \<lparr>X = replicate 256 [1], y = replicate 256 1\<rparr>\<rparr>"

text \<open>A dictionary of two classifiers, as \<^verbatim>\<open>print_website\<close> may receive it.\<close>

definition sample_table :: classifier_data where
  "sample_table =
     [(''k nn'', \<lparr>training_time = 1, testing_time = 7, accuracy = 0.95\<rparr>),
      (''CNN'', \<lparr>training_time = 900, testing_time = 2, accuracy = 0.85\<rparr>)]"

subsection \<open>Script one: the library\<close>

text \<open>
  The module-level switches of script one. The script sets them once, at the top
  (\<open>script_config\<close> below); the branches they select are all kept.
\<close>

record config =
  data_augmentation :: bool
  load_smoothed_labels :: bool
  model_type :: string

definition script_config :: config where
  "script_config =
     \<lparr>data_augmentation = True, load_smoothed_labels = False, model_type = ''dense''\<rparr>"

definition batch_size :: nat where
  "batch_size = 64"

definition nb_epoch :: nat where
  "nb_epoch = 200"

definition img_rows :: nat where
  "img_rows = 32"

definition img_cols :: nat where
  "img_cols = 32"

definition img_channels :: nat where
  "img_channels = 3"

text \<open>The dictionary returned by \<^verbatim>\<open>gtsdb.load_data()\<close>, read at its two keys.\<close>

record gtsdb_data =
  x_train :: ndarray
  y_train :: "nat list"

text \<open>
  The functions of keras, numpy, the standard library and the repository's own modules
  \<^verbatim>\<open>gtsdb\<close>, \<^verbatim>\<open>densenet\<close> and \<^verbatim>\<open>sequential_model\<close> that script one
  calls. None of the three modules is among the sources, so
  \<^verbatim>\<open>gtsdb.n_classes\<close> is a field like the functions. \<open>k_fit_generator\<close> returns
  the \<^verbatim>\<open>history\<close> dictionary of the callback it returns; \<open>k_fmt4\<close> is
  \<^verbatim>\<open>"%0.4f" % v\<close> and \<open>k_str_shape\<close> is the text of an array's shape.
\<close>

record 'model keras =
  gtsdb_n_classes :: nat
  gtsdb_load_data :: "error + gtsdb_data"
  to_categorical :: "nat list \<Rightarrow> nat \<Rightarrow> error + ndarray"
  np_load :: "string \<Rightarrow> error + ndarray"
  image_dim_ordering :: "error + string"
  create_model :: "nat \<Rightarrow> nat \<times> nat \<times> nat \<Rightarrow> error + 'model"
  create_dense_net :: "dense_net_args \<Rightarrow> error + 'model"
  summary :: "'model \<Rightarrow> error + unit"
  compile :: "'model \<Rightarrow> string \<Rightarrow> real \<Rightarrow> string list \<Rightarrow> error + 'model"
  astype_float32 :: "ndarray \<Rightarrow> error + ndarray"
  k_fit :: "'model \<Rightarrow> fit_args \<Rightarrow> error + 'model"
  new_datagen :: "image_data_generator \<Rightarrow> error + unit"
  datagen_fit :: "ndarray \<Rightarrow> nat \<Rightarrow> error + unit"
  k_fit_generator :: "'model \<Rightarrow> fit_generator_args
     \<Rightarrow> error + 'model \<times> (string \<Rightarrow> real list option)"
  open_write :: "string \<Rightarrow> string list list \<Rightarrow> error + unit"
  save :: "'model \<Rightarrow> string \<Rightarrow> error + unit"
  k_fmt4 :: "real \<Rightarrow> string"
  k_str_shape :: "ndarray \<Rightarrow> string"

subsection \<open>Script one: the module body\<close>

text \<open>
  The branch on \<^verbatim>\<open>model_type\<close>. In the last branch the name \<^verbatim>\<open>model\<close> is
  never bound; the script prints a message and goes on.
\<close>

definition dense_args :: "nat \<Rightarrow> nat \<times> nat \<times> nat \<Rightarrow> dense_net_args" where
  "dense_args nb_classes input_shape =
     \<lparr>dn_nb_classes = nb_classes, dn_input_shape = input_shape, dn_depth = 100,
      dn_nb_dense_block = 3, dn_growth_rate = 12, dn_nb_filter = - 1, dn_bottleneck = True,
      dn_reduction = 0.5, dn_dropout_rate = 0.0\<rparr>"

definition build_model :: "config \<Rightarrow> 'model keras \<Rightarrow> nat \<Rightarrow> nat \<times> nat \<times> nat
    \<Rightarrow> 'model option prog" where
  "build_model cfg lib nb_classes input_shape =
     (if model_type cfg = ''sequential'' then
        bindP (call (CreateModel nb_classes input_shape)
                 (create_model lib nb_classes input_shape))
          (\<lambda>model. returnP (Some model))
      else if model_type cfg = ''dense'' then
        bindP (call (CreateDenseNet (dense_args nb_classes input_shape))
                 (create_dense_net lib (dense_args nb_classes input_shape)))
          (\<lambda>model. returnP (Some model))
      else
        bindP (print (''Not implemented model '' @ [CHR 0x27] @ model_type cfg @ [CHR 0x27]))
          (\<lambda>_. returnP None))"

text \<open>Reading a name that was never bound raises \<^verbatim>\<open>NameError\<close>.\<close>

definition the_model :: "'model option \<Rightarrow> 'model prog" where
  "the_model model = (case model of None \<Rightarrow> raiseP (NameError ''model'') | Some m \<Rightarrow> returnP m)"

definition datagen_config :: image_data_generator where
  "datagen_config =
     \<lparr>featurewise_center = False, samplewise_center = False,
      featurewise_std_normalization = False, samplewise_std_normalization = False,
      zca_whitening = False, rotation_range = 15, width_shift_range = 5 / 32,
      height_shift_range = 5 / 32, horizontal_flip = True, vertical_flip = False\<rparr>"

definition checkpoint :: model_checkpoint where
  "checkpoint =
     \<lparr>cb_filepath = ''weights/DenseNet-BC-100-12-gtsdb.h5'', cb_monitor = ''val_acc'',
      cb_save_best_only = True, cb_save_weights_only = False\<rparr>"

text \<open>\<^verbatim>\<open>history_callback.history[key]\<close>: a missing key raises.\<close>

definition history_get :: "(string \<Rightarrow> real list option) \<Rightarrow> string \<Rightarrow> real list prog" where
  "history_get history key =
     (case history key of None \<Rightarrow> raiseP (KeyError key) | Some v \<Rightarrow> returnP v)"

text \<open>
  The rows of \<^verbatim>\<open>history.csv\<close>: the three histories zipped (the shortest one
  bounds the number of rows) and each value formatted, under the header row.
\<close>

definition history_rows :: "'model keras \<Rightarrow> real list \<Rightarrow> real list \<Rightarrow> real list
    \<Rightarrow> string list list" where
  "history_rows lib loss_history acc_history val_acc_history =
     map (\<lambda>(l, a, v). [k_fmt4 lib l, k_fmt4 lib a, k_fmt4 lib v])
       (zip loss_history (zip acc_history val_acc_history))"

definition csv_header :: "string list" where
  "csv_header = [''loss'', ''acc'', ''val_acc'']"

text \<open>
  The two branches on \<^verbatim>\<open>data_augmentation\<close>. The first argument pair is the
  training data, the second the validation data; the branch with augmentation passes
  the training data as \<^verbatim>\<open>validation_data\<close>, as the script does.
\<close>

definition fit_plain :: "'model keras \<Rightarrow> 'model \<Rightarrow> ndarray \<Rightarrow> ndarray \<Rightarrow> ndarray \<Rightarrow> ndarray
    \<Rightarrow> 'model prog" where
  "fit_plain lib model X_train Y_train X_val Y_val =
     bindP (print ''Not using data augmentation.'') (\<lambda>_.
     (let args = \<lparr>fa_x = X_train, fa_y = Y_train, fa_batch_size = batch_size,
                   fa_nb_epoch = nb_epoch, fa_validation_data = (X_val, Y_val),
                   fa_shuffle = True\<rparr>
      in call (ModelFit args) (k_fit lib model args)))"

definition fit_augmented :: "'model keras \<Rightarrow> 'model \<Rightarrow> ndarray \<Rightarrow> ndarray \<Rightarrow> 'model prog" where
  "fit_augmented lib model X_train Y_train =
     bindP (print ''Using real-time data augmentation.'') (\<lambda>_.
     bindP (call (NewDatagen datagen_config) (new_datagen lib datagen_config)) (\<lambda>_.
     bindP (call (DatagenFit 0) (datagen_fit lib X_train 0)) (\<lambda>_.
     (let args = \<lparr>fg_flow_x = X_train, fg_flow_y = Y_train, fg_flow_batch_size = batch_size,
                   fg_samples_per_epoch = length X_train, fg_nb_epoch = nb_epoch,
                   fg_validation_data = (X_train, Y_train), fg_callbacks = [checkpoint]\<rparr>
      in
     bindP (call (FitGenerator args) (k_fit_generator lib model args)) (\<lambda>(model', history).
     bindP (history_get history ''loss'') (\<lambda>loss_history.
     bindP (history_get history ''acc'') (\<lambda>acc_history.
     bindP (history_get history ''val_acc'') (\<lambda>val_acc_history.
     (let rows = csv_header # history_rows lib loss_history acc_history val_acc_history in
     bindP (call (FileWrite ''history.csv'' rows) (open_write lib ''history.csv'' rows)) (\<lambda>_.
     returnP model'))))))))))"

definition train_with :: "config \<Rightarrow> 'model keras \<Rightarrow> unit prog" where
  "train_with cfg lib =
     (let nb_classes = gtsdb_n_classes lib in
     bindP (call LoadData (gtsdb_load_data lib)) (\<lambda>d.
     (let X_train = x_train d; X_val = X_train; y_val = y_train d in
     bindP (call (ToCategorical nb_classes) (to_categorical lib (y_train d) nb_classes))
       (\<lambda>Y_train.
     bindP (print (k_str_shape lib Y_train)) (\<lambda>_.
     bindP (print (k_str_shape lib Y_train)) (\<lambda>_.
     bindP (if load_smoothed_labels cfg
            then call (NpLoad ''smoothed_lables.npy'') (np_load lib ''smoothed_lables.npy'')
            else returnP Y_train) (\<lambda>Y_train.
     bindP (call (ToCategorical nb_classes) (to_categorical lib y_val nb_classes)) (\<lambda>Y_val.
     bindP (call ImageDimOrdering (image_dim_ordering lib)) (\<lambda>ordering.
     (let input_shape = (if ordering = ''th'' then (img_channels, img_rows, img_cols)
                         else (img_rows, img_cols, img_channels)) in
     bindP (build_model cfg lib nb_classes input_shape) (\<lambda>model.
     bindP (print ''Model created'') (\<lambda>_.
     bindP (the_model model) (\<lambda>model.
     bindP (call Summary (summary lib model)) (\<lambda>_.
     bindP (call (Compile ''categorical_crossentropy'' (1 / 10000) [''accuracy''])
              (compile lib model ''categorical_crossentropy'' (1 / 10000) [''accuracy'']))
       (\<lambda>model.
     bindP (print ''Finished compiling'') (\<lambda>_.
     bindP (print ''Building model...'') (\<lambda>_.
     bindP (call AsType (astype_float32 lib X_train)) (\<lambda>X_train.
     bindP (call AsType (astype_float32 lib X_val)) (\<lambda>X_val.
     (let X_train = map (map (\<lambda>v. v / 255)) X_train;
          X_val = map (map (\<lambda>v. v / 255)) X_val in
     bindP (if \<not> data_augmentation cfg
            then fit_plain lib model X_train Y_train X_val Y_val
            else fit_augmented lib model X_train Y_train) (\<lambda>model.
     call (ModelSave ''gtsdb.h5'') (save lib model ''gtsdb.h5''))))))))))))))))))))))"

text \<open>
  Running the file as a script, with the switches as the script sets them. The argument
  vector of the process is given and never read.
\<close>

definition train :: "'model keras \<Rightarrow> unit prog" where
  "train lib = train_with script_config lib"

definition script_one :: "string list \<Rightarrow> 'model keras \<Rightarrow> (error + unit) \<times> event list" where
  "script_one argv lib = train lib []"

subsection \<open>Reading a run\<close>

text \<open>
  The library calls of a run, without the lines printed and the readings of the clock.
\<close>

definition is_call :: "event \<Rightarrow> bool" where
  "is_call e = (case e of Stdout _ \<Rightarrow> False | Time \<Rightarrow> False | _ \<Rightarrow> True)"

definition calls :: "event list \<Rightarrow> event list" where
  "calls tr = filter is_call tr"


text \<open>
  The calls script two makes for one classifier on a test set of \<open>n\<close> rows, and those of
  \<^verbatim>\<open>get_data\<close>.
\<close>

definition eval_calls :: "nat \<Rightarrow> clf \<Rightarrow> event list" where
  "eval_calls n c = map (Predict c) (py_range 0 n 128) @ [ConfusionMatrix c, AccuracyScore c]"

definition clf_calls :: "nat \<Rightarrow> clf \<Rightarrow> event list" where
  "clf_calls n c = Fit c # eval_calls n c"

definition data_calls :: "event list" where
  "data_calls = [FetchMldata ''MNIST original'', Shuffle 0, TrainTestSplit 0.33 42]"

text \<open>
  A program conforms to a list of calls when every run makes a prefix of the list, and
  the whole list when it returns. A program emits \<open>P\<close> when every event of every run
  satisfies \<open>P\<close>.
\<close>

definition conforms :: "'a prog \<Rightarrow> event list \<Rightarrow> bool" where
  "conforms m L \<longleftrightarrow>
     (\<forall>h. prefix (calls (snd (m h))) L \<and> (\<forall>x. fst (m h) = Inr x \<longrightarrow> calls (snd (m h)) = L))"

definition emits :: "(event \<Rightarrow> bool) \<Rightarrow> 'a prog \<Rightarrow> bool" where
  "emits P m \<longleftrightarrow> (\<forall>h. \<forall>e \<in> set (snd (m h)). P e)"

text \<open>
  Orders on a run. \<open>preceded P Q tr\<close>: every event of \<open>tr\<close> that satisfies \<open>Q\<close> comes after
  one that satisfies \<open>P\<close>. \<open>never_after P Q tr\<close>: once an event satisfies \<open>Q\<close>, none after
  it satisfies \<open>P\<close>.
\<close>

fun preceded :: "(event \<Rightarrow> bool) \<Rightarrow> (event \<Rightarrow> bool) \<Rightarrow> event list \<Rightarrow> bool" where
  "preceded P Q [] = True"
| "preceded P Q (e # es) = (\<not> Q e \<and> (P e \<or> preceded P Q es))"

fun never_after :: "(event \<Rightarrow> bool) \<Rightarrow> (event \<Rightarrow> bool) \<Rightarrow> event list \<Rightarrow> bool" where
  "never_after P Q [] = True"
| "never_after P Q (e # es) = ((Q e \<longrightarrow> (\<forall>e' \<in> set es. \<not> P e')) \<and> never_after P Q es)"

text \<open>The classifier an event of script two is about.\<close>

definition clf_of :: "event \<Rightarrow> clf option" where
  "clf_of e =
     (case e of Fit c \<Rightarrow> Some c | Predict c _ \<Rightarrow> Some c | ConfusionMatrix c \<Rightarrow> Some c
      | AccuracyScore c \<Rightarrow> Some c | _ \<Rightarrow> None)"

subsection \<open>Script one: the number of classes, and a library for concrete runs\<close>

text \<open>Modelled from the spec: the value of \<^verbatim>\<open>gtsdb.n_classes\<close>. The module
  \<^verbatim>\<open>gtsdb\<close> is not among the sources; the specification speaks of ``a 100-class image
  dataset''.\<close>

definition n_classes :: nat where
  "n_classes = 100"

text \<open>
  A library in which every call succeeds: one image of two pixels, labels encoded as rows
  of zeros, and a training history of two epochs.
\<close>

definition sample_history :: "string \<Rightarrow> real list option" where
  "sample_history key =
     (if key = ''loss'' then Some [2, 1]
      else if key = ''acc'' then Some [0.5, 0.75]
      else if key = ''val_acc'' then Some [0.25, 0.5]
      else None)"

definition sample_keras :: "unit keras" where
  "sample_keras =
     \<lparr>gtsdb_n_classes = 100,
      gtsdb_load_data = Inr \<lparr>x_train = [[255, 0]], y_train = [7]\<rparr>,
      to_categorical = (\<lambda>labels n. Inr (map (\<lambda>_. replicate n 0) labels)),
      np_load = (\<lambda>_. Inl (LibraryError ''No such file'')),
      image_dim_ordering = Inr ''tf'',
      create_model = (\<lambda>_ _. Inr ()),
      create_dense_net = (\<lambda>_. Inr ()),
      summary = (\<lambda>_. Inr ()),
      compile = (\<lambda>_ _ _ _. Inr ()),
      astype_float32 = (\<lambda>a. Inr a),
      k_fit = (\<lambda>_ _. Inr ()),
      new_datagen = (\<lambda>_. Inr ()),
      datagen_fit = (\<lambda>_ _. Inr ()),
      k_fit_generator = (\<lambda>_ _. Inr ((), sample_history)),
      open_write = (\<lambda>_ _. Inr ()),
      save = (\<lambda>_ _. Inr ()),
      k_fmt4 = (\<lambda>_. ''0.0000''),
      k_str_shape = (\<lambda>_. ''(1, 100)'')\<rparr>"

text \<open>The switches of script one with \<^verbatim>\<open>data_augmentation\<close> turned off.\<close>

definition plain_config :: config where
  "plain_config =
     \<lparr>data_augmentation = False, load_smoothed_labels = False, model_type = ''dense''\<rparr>"

text \<open>The calls of \<^verbatim>\<open>clf.fit\<close> in a run.\<close>

definition is_fit :: "event \<Rightarrow> bool" where
  "is_fit e = (case e of Fit _ \<Rightarrow> True | _ \<Rightarrow> False)"

text \<open>
  The name of the function an event is a call of, and the calls of script one from top to
  bottom, with the switches as the script sets them. \<open>follows\<close>: every run makes a prefix
  of a list of steps, and the whole list when it returns.
\<close>

definition kind_of :: "event \<Rightarrow> string" where
  "kind_of e =
     (case e of
        Stdout _ \<Rightarrow> ''print''
      | Time \<Rightarrow> ''time.time''
      | FetchMldata _ \<Rightarrow> ''fetch_mldata''
      | Shuffle _ \<Rightarrow> ''shuffle''
      | TrainTestSplit _ _ \<Rightarrow> ''train_test_split''
      | Fit _ \<Rightarrow> ''clf.fit''
      | Predict _ _ \<Rightarrow> ''clf.predict''
      | ConfusionMatrix _ \<Rightarrow> ''metrics.confusion_matrix''
      | AccuracyScore _ \<Rightarrow> ''metrics.accuracy_score''
      | LoadData \<Rightarrow> ''gtsdb.load_data''
      | ToCategorical _ \<Rightarrow> ''np_utils.to_categorical''
      | NpLoad _ \<Rightarrow> ''np.load''
      | ImageDimOrdering \<Rightarrow> ''K.image_dim_ordering''
      | CreateModel _ _ \<Rightarrow> ''sequential_model.create_model''
      | CreateDenseNet _ \<Rightarrow> ''densenet.create_dense_net''
      | Summary \<Rightarrow> ''model.summary''
      | Compile _ _ _ \<Rightarrow> ''model.compile''
      | AsType \<Rightarrow> ''astype''
      | ModelFit _ \<Rightarrow> ''model.fit''
      | NewDatagen _ \<Rightarrow> ''ImageDataGenerator''
      | DatagenFit _ \<Rightarrow> ''datagen.fit''
      | FitGenerator _ \<Rightarrow> ''model.fit_generator''
      | FileWrite _ _ \<Rightarrow> ''open''
      | ModelSave _ \<Rightarrow> ''model.save'')"

definition train_steps :: "string list" where
  "train_steps =
     [''gtsdb.load_data'', ''np_utils.to_categorical'', ''print'', ''print'',
      ''np_utils.to_categorical'', ''K.image_dim_ordering'', ''densenet.create_dense_net'',
      ''print'', ''model.summary'', ''model.compile'', ''print'', ''print'', ''astype'',
      ''astype'', ''print'', ''ImageDataGenerator'', ''datagen.fit'', ''model.fit_generator'',
      ''open'', ''model.save'']"

definition follows :: "'a prog \<Rightarrow> string list \<Rightarrow> bool" where
  "follows m L \<longleftrightarrow>
     (\<forall>h. prefix (map kind_of (snd (m h))) L
        \<and> (\<forall>x. fst (m h) = Inr x \<longrightarrow> map kind_of (snd (m h)) = L))"



section \<open>Facts about programs\<close>

lemma bindP_fst:
  "fst (bindP m f h) =
     (case fst (m h) of Inl e \<Rightarrow> Inl e | Inr x \<Rightarrow> fst (f x (h @ snd (m h))))"
  by (simp add: bindP_def split: prod.splits sum.splits)

lemma bindP_snd:
  "snd (bindP m f h) =
     (case fst (m h) of Inl e \<Rightarrow> snd (m h) | Inr x \<Rightarrow> snd (m h) @ snd (f x (h @ snd (m h))))"
  by (simp add: bindP_def split: prod.splits sum.splits)

lemma returnP_simps [simp]: "fst (returnP x h) = Inr x" "snd (returnP x h) = []"
  by (simp_all add: returnP_def)

lemma call_simps [simp]: "fst (call ev r h) = r" "snd (call ev r h) = [ev]"
  by (simp_all add: call_def)

lemma print_simps [simp]: "fst (print s h) = Inr ()" "snd (print s h) = [Stdout s]"
  by (simp_all add: print_def)

lemma time_time_simps [simp]:
  "fst (time_time lib h) = Inr (clock lib h)" "snd (time_time lib h) = [Time]"
  by (simp_all add: time_time_def)

section \<open>The chunks of \<^verbatim>\<open>analyze\<close>\<close>

lemma py_range_below: "j \<in> set (py_range i stop s) \<Longrightarrow> j < stop"
proof (induction i stop s rule: py_range.induct)
  case (1 i stop s)
  from 1(2) have ne: "\<not> (s = 0 \<or> stop \<le> i)"
    and mem: "j = i \<or> j \<in> set (py_range (i + s) stop s)"
    by (simp_all add: py_range.simps [of i] split: if_splits)
  then show ?case using 1(1) by auto
qed

lemma py_range_closed:
  "0 < s \<Longrightarrow> py_range i stop s = map (\<lambda>k. i + k * s) [0..<(stop - i + (s - 1)) div s]"
proof (induction i stop s rule: py_range.induct)
  case (1 i stop s)
  show ?case
  proof (cases "stop \<le> i")
    case True
    then show ?thesis using 1(2) by (simp add: py_range.simps [of i])
  next
    case False
    let ?N = "(stop - i + (s - 1)) div s"
    have big: "s \<le> stop - i + (s - 1)"
      using False 1(2) by linarith
    have N: "?N = Suc ((stop - i + (s - 1) - s) div s)"
      using le_div_geq [OF 1(2) big] .
    have "(stop - (i + s) + (s - 1)) div s = (stop - i + (s - 1) - s) div s"
    proof (cases "s \<le> stop - i")
      case True
      then have "stop - (i + s) + (s - 1) = stop - i + (s - 1) - s"
        using 1(2) by linarith
      then show ?thesis by simp
    next
      case False
      then have "stop - (i + s) + (s - 1) < s" "stop - i + (s - 1) - s < s"
        using 1(2) by linarith+
      then show ?thesis by simp
    qed
    then have step: "(stop - (i + s) + (s - 1)) div s = ?N - 1"
      using N by simp
    have pos: "0 < ?N"
      using N by simp
    have "py_range (i + s) stop s = map (\<lambda>k. i + s + k * s) [0..<?N - 1]"
      using 1 False step by simp
    moreover have "[0..<?N] = 0 # map Suc [0..<?N - 1]"
      using pos by (metis One_nat_def Suc_pred map_Suc_upt upt_conv_Cons)
    ultimately show ?thesis
      using False 1(2) by (simp add: py_range.simps [of i] comp_def)
  qed
qed

lemma py_range_chunks:
  "0 < s \<Longrightarrow> concat (map (\<lambda>j. take s (drop j xs)) (py_range i (length xs) s)) = drop i xs"
proof (induction i "length xs" s rule: py_range.induct)
  case (1 i s)
  show ?case
  proof (cases "length xs \<le> i")
    case True
    then show ?thesis by (simp add: py_range.simps)
  next
    case False
    with 1 have "concat (map (\<lambda>j. take s (drop j xs)) (py_range (i + s) (length xs) s))
        = drop (i + s) xs"
      by simp
    moreover have "take s (drop i xs) @ drop (i + s) xs = drop i xs"
      by (metis add.commute append_take_drop_id drop_drop)
    ultimately show ?thesis
      using False 1(2) by (simp add: py_range.simps [of i])
  qed
qed

lemma predict_chunks_run:
  assumes "\<And>rows. rows \<noteq> [] \<Longrightarrow> predict lib m rows = Inr (map f rows)"
    and "\<forall>j \<in> set js. j < length xs"
  shows "predict_chunks lib c m xs js acc h
     = (Inr (acc @ concat (map (\<lambda>j. map f (take 128 (drop j xs))) js)), map (Predict c) js)"
  using assms(2)
proof (induction js arbitrary: acc h)
  case Nil
  show ?case by (simp add: returnP_def)
next
  case (Cons j js)
  then have "take 128 (drop j xs) \<noteq> []"
    by simp
  then have "predict lib m (take 128 (drop j xs)) = Inr (map f (take 128 (drop j xs)))"
    by (rule assms(1))
  then show ?case
    using Cons by (simp add: bindP_def call_def)
qed

lemma predict_chunks_whole:
  assumes "\<And>rows. rows \<noteq> [] \<Longrightarrow> predict lib m rows = Inr (map f rows)"
  shows "predict_chunks lib c m xs (py_range 0 (length xs) 128) [] h
     = (Inr (map f xs), map (Predict c) (py_range 0 (length xs) 128))"
proof -
  have "concat (map (\<lambda>j. map f (take 128 (drop j xs))) (py_range 0 (length xs) 128))
      = map f (concat (map (\<lambda>j. take 128 (drop j xs)) (py_range 0 (length xs) 128)))"
    by (simp add: map_concat comp_def)
  also have "\<dots> = map f xs"
    by (simp add: py_range_chunks)
  finally show ?thesis
    using predict_chunks_run [of lib m f "py_range 0 (length xs) 128" xs c "[]" h, OF assms]
    by (simp add: py_range_below)
qed

lemma analyze_run:
  assumes "\<And>rows. rows \<noteq> [] \<Longrightarrow> predict lib m rows = Inr (map f rows)"
    and "confusion_matrix lib (y (test d)) (map f (X (test d))) = Inr cm"
    and "accuracy_score lib (y (test d)) (map f (X (test d))) = Inr a"
  shows "analyze lib c m d fit_time clf_name h =
     (Inr \<lparr>r_testing_time =
              clock lib (h @ Time # map (Predict c) (py_range 0 (length (X (test d))) 128))
                - clock lib h,
            r_accuracy = a\<rparr>,
      Time # map (Predict c) (py_range 0 (length (X (test d))) 128)
        @ [Time,
           Stdout (''Classifier: '' @ clf_name),
           Stdout (''Training time: '' @ fmt4 lib fit_time @ ''s''),
           Stdout (''Testing time: ''
             @ fmt4 lib
                 (clock lib (h @ Time # map (Predict c) (py_range 0 (length (X (test d))) 128))
                    - clock lib h)
             @ ''s''),
           ConfusionMatrix c,
           Stdout (''Confusion matrix:'' @ [CHR 0x0A] @ cm),
           AccuracyScore c,
           Stdout (''Accuracy: '' @ fmt4 lib a)])"
  by (simp add: analyze_def bindP_def time_time_def print_def call_def returnP_def
      predict_chunks_whole [of lib m f, OF assms(1)] assms(2,3))

text \<open>
  C10. \<^verbatim>\<open>analyze\<close> predicts the test set in chunks of 128 rows and appends the
  results. The chunks start at the multiples of 128 below the number of test rows, so none
  of them is empty and \<open>predict\<close> is never called on an array without rows. For a
  classifier whose \<open>predict\<close> maps each row on its own (on every array that has rows,
  \<open>predict\<close> is \<open>map f\<close>; nothing is assumed of an array without rows), the appended
  predictions are one per test row and are what one call on the whole test set returns
  (when the test set is empty the loop makes no call at all). Every run of
  \<^verbatim>\<open>analyze\<close> starts with these chunked calls, and the confusion matrix that is
  printed and the accuracy that is returned are computed from the labels of the whole test
  set and these predictions. (Labels are numbers here; numpy's change of the element type
  on \<^verbatim>\<open>np.append\<close> to an empty float array is not modelled.)
\<close>

theorem analyze_chunks_cover_test_set:
  assumes "\<forall>rows. rows \<noteq> [] \<longrightarrow> predict lib m rows = Inr (map f rows)"
  shows "py_range 0 (length (X (test d))) 128
           = map (\<lambda>k. k * 128) [0..<(length (X (test d)) + 127) div 128]
       \<and> (\<forall>i \<in> set (py_range 0 (length (X (test d))) 128).
             take 128 (drop i (X (test d))) \<noteq> [])
       \<and> predict_chunks lib c m (X (test d)) (py_range 0 (length (X (test d))) 128) [] h
           = (Inr (map f (X (test d))),
              map (Predict c) (py_range 0 (length (X (test d))) 128))
       \<and> (X (test d) \<noteq> [] \<longrightarrow>
             fst (predict_chunks lib c m (X (test d))
                    (py_range 0 (length (X (test d))) 128) [] h)
               = predict lib m (X (test d)))
       \<and> (\<exists>p. fst (predict_chunks lib c m (X (test d))
                    (py_range 0 (length (X (test d))) 128) [] h) = Inr p
              \<and> length p = length (X (test d)))
       \<and> (\<exists>rest. snd (analyze lib c m d fit_time clf_name h)
             = Time # map (Predict c) (py_range 0 (length (X (test d))) 128) @ Time # rest)
       \<and> (\<forall>cm. confusion_matrix lib (y (test d)) (map f (X (test d))) = Inr cm \<longrightarrow>
              Stdout (''Confusion matrix:'' @ [CHR 0x0A] @ cm)
                \<in> set (snd (analyze lib c m d fit_time clf_name h)))
       \<and> (\<forall>res. fst (analyze lib c m d fit_time clf_name h) = Inr res \<longrightarrow>
              accuracy_score lib (y (test d)) (map f (X (test d))) = Inr (r_accuracy res))
       \<and> (\<forall>cm a. confusion_matrix lib (y (test d)) (map f (X (test d))) = Inr cm
              \<and> accuracy_score lib (y (test d)) (map f (X (test d))) = Inr a \<longrightarrow>
            analyze lib c m d fit_time clf_name h =
              (Inr \<lparr>r_testing_time =
                      clock lib
                        (h @ Time # map (Predict c) (py_range 0 (length (X (test d))) 128))
                        - clock lib h,
                    r_accuracy = a\<rparr>,
               Time # map (Predict c) (py_range 0 (length (X (test d))) 128)
                 @ [Time,
                    Stdout (''Classifier: '' @ clf_name),
                    Stdout (''Training time: '' @ fmt4 lib fit_time @ ''s''),
                    Stdout (''Testing time: ''
                      @ fmt4 lib
                          (clock lib
                             (h @ Time
                                # map (Predict c) (py_range 0 (length (X (test d))) 128))
                             - clock lib h)
                      @ ''s''),
                    ConfusionMatrix c,
                    Stdout (''Confusion matrix:'' @ [CHR 0x0A] @ cm),
                    AccuracyScore c,
                    Stdout (''Accuracy: '' @ fmt4 lib a)]))"
proof -
  from assms have row: "\<And>rows. rows \<noteq> [] \<Longrightarrow> predict lib m rows = Inr (map f rows)"
    by simp
  let ?js = "py_range 0 (length (X (test d))) 128"
  have starts: "?js = map (\<lambda>k. k * 128) [0..<(length (X (test d)) + 127) div 128]"
    using py_range_closed [of 128 0 "length (X (test d))"] by simp
  have filled: "\<forall>i \<in> set ?js. take 128 (drop i (X (test d))) \<noteq> []"
  proof
    fix i
    assume "i \<in> set ?js"
    then have "i < length (X (test d))"
      by (rule py_range_below)
    then show "take 128 (drop i (X (test d))) \<noteq> []"
      by simp
  qed
  have whole: "\<And>h'. predict_chunks lib c m (X (test d)) ?js [] h'
      = (Inr (map f (X (test d))), map (Predict c) ?js)"
    by (rule predict_chunks_whole [of lib m f, OF row])
  have single: "X (test d) \<noteq> [] \<longrightarrow>
      fst (predict_chunks lib c m (X (test d)) ?js [] h) = predict lib m (X (test d))"
    by (simp add: whole row)
  have counted: "\<exists>p. fst (predict_chunks lib c m (X (test d)) ?js [] h) = Inr p
      \<and> length p = length (X (test d))"
    by (simp add: whole)
  have begins: "\<exists>rest. snd (analyze lib c m d fit_time clf_name h)
      = Time # map (Predict c) ?js @ Time # rest"
    by (simp add: analyze_def bindP_snd bindP_fst whole split: sum.splits)
  have printed: "\<forall>cm. confusion_matrix lib (y (test d)) (map f (X (test d))) = Inr cm \<longrightarrow>
      Stdout (''Confusion matrix:'' @ [CHR 0x0A] @ cm)
        \<in> set (snd (analyze lib c m d fit_time clf_name h))"
    by (simp add: analyze_def bindP_fst bindP_snd whole split: sum.splits)
  have scored: "\<forall>res. fst (analyze lib c m d fit_time clf_name h) = Inr res \<longrightarrow>
      accuracy_score lib (y (test d)) (map f (X (test d))) = Inr (r_accuracy res)"
    by (auto simp add: analyze_def bindP_fst whole split: sum.splits)
  note run = analyze_run [of lib m f d _ _ c fit_time clf_name h, OF row]
  show ?thesis
    using starts filled whole [of h] single counted begins printed scored run
    by (intro conjI allI impI) (simp_all only:, blast+)
qed

theorem analyze_chunks_cover_test_set_witness:
  "(\<forall>rows. predict strict_lib () rows
       = (if rows = [] then Inl (LibraryError ''Found array with 0 sample(s)'')
          else Inr (map sum_list rows)))
   \<and> py_range 0 (length (X (test exact_data))) 128 = [0, 128]
   \<and> predict_chunks strict_lib (Clf ''GaussianNB'' [] []) () (X (test exact_data))
        (py_range 0 (length (X (test exact_data))) 128) [] []
       = (Inr (replicate 256 1),
          [Predict (Clf ''GaussianNB'' [] []) 0, Predict (Clf ''GaussianNB'' [] []) 128])"
proof -
  have h: "\<forall>rows. rows \<noteq> [] \<longrightarrow> predict strict_lib () rows = Inr (map sum_list rows)"
    by (simp add: strict_lib_def)
  have e: "\<forall>rows. predict strict_lib () rows
       = (if rows = [] then Inl (LibraryError ''Found array with 0 sample(s)'')
          else Inr (map sum_list rows))"
    by (simp add: strict_lib_def)
  have n: "[0..<(length (X (test exact_data)) + 127) div 128] = [0, 1]"
    by (simp add: exact_data_def upt_rec)
  have p: "map sum_list (X (test exact_data)) = replicate 256 (1::real)"
    by (simp add: exact_data_def)
  show ?thesis
    using e analyze_chunks_cover_test_set
      [OF h, where c = "Clf ''GaussianNB'' [] []" and d = exact_data and h = "[]"
        and fit_time = 0 and clf_name = "''GaussianNB''"]
    by (clarsimp simp add: n p)
qed

section \<open>The report of script two\<close>

lemma print_all_fst: "fst (print_all ss h) = Inr ()"
  by (induction ss arbitrary: h) (simp_all add: bindP_fst)

lemma print_all_snd: "snd (print_all ss h) = map Stdout ss"
  by (induction ss arbitrary: h) (simp_all add: bindP_snd)

lemma sorted_items_distinct:
  "distinct (map fst d) \<Longrightarrow> distinct (map fst (sorted_items d))"
  unfolding sorted_items_def by (induction d) (simp_all add: distinct_insort_key)

text \<open>
  C9. \<^verbatim>\<open>print_website\<close> prints the head of the table, then the rows of the
  classifiers in ascending order of their names, then the end of the table. In a row,
  the accuracy cell carries \<^verbatim>\<open>class="danger"\<close> exactly when the accuracy is below
  0.9, the testing-time cell exactly when the testing time is above 5, and the name and
  training-time cells never carry it. The dictionary's keys are distinct.
\<close>

theorem print_website_sorted_danger:
  assumes "distinct (map fst d)"
  shows "fst (print_website lib d h) = Inr ()
       \<and> snd (print_website lib d h)
           = map Stdout ([table_head] @ concat (map (row_lines lib) (sorted_items d))
               @ [''</tbody>'', ''</table>''])
       \<and> sorted (map fst (sorted_items d))
       \<and> distinct (map fst (sorted_items d))
       \<and> set (sorted_items d) = set d
       \<and> (\<forall>(clf_name, cd) \<in> set d.
            row_lines lib (clf_name, cd)
              = [''<tr>'',
                 [CHR 0x09] @ ''<td>'' @ clf_name @ ''</td>'',
                 [CHR 0x09] @ ''<td align=\"right\" ''
                   @ (if accuracy cd < 0.9 then ''class=\"danger\"'' else [])
                   @ ''>'' @ str_float lib (accuracy cd) @ ''%</td>'',
                 [CHR 0x09] @ ''<td align=\"right\">'' @ str_float lib (training_time cd)
                   @ ''s</td>'',
                 [CHR 0x09] @ ''<td align=\"right\" ''
                   @ (if testing_time cd > 5 then ''class=\"danger\"'' else [])
                   @ ''>'' @ str_float lib (testing_time cd) @ ''s</td>'',
                 ''</tr>''])"
proof -
  have rows: "\<And>clf_name cd. row_lines lib (clf_name, cd)
              = [''<tr>'',
                 [CHR 0x09] @ ''<td>'' @ clf_name @ ''</td>'',
                 [CHR 0x09] @ ''<td align=\"right\" ''
                   @ (if accuracy cd < 0.9 then ''class=\"danger\"'' else [])
                   @ ''>'' @ str_float lib (accuracy cd) @ ''%</td>'',
                 [CHR 0x09] @ ''<td align=\"right\">'' @ str_float lib (training_time cd)
                   @ ''s</td>'',
                 [CHR 0x09] @ ''<td align=\"right\" ''
                   @ (if testing_time cd > 5 then ''class=\"danger\"'' else [])
                   @ ''>'' @ str_float lib (testing_time cd) @ ''s</td>'',
                 ''</tr>'']"
    by (simp add: row_lines_def name_cell_def accuracy_cell_def training_cell_def
        testing_cell_def acc_msg_def test_msg_def danger_msg_def)
  have srt: "sorted (map fst (sorted_items d))" "set (sorted_items d) = set d"
    by (simp_all add: sorted_items_def)
  have run: "fst (print_website lib d h) = Inr ()"
    "snd (print_website lib d h)
           = map Stdout ([table_head] @ concat (map (row_lines lib) (sorted_items d))
               @ [''</tbody>'', ''</table>''])"
    by (simp_all add: print_website_def website_lines_def print_all_fst print_all_snd
        del: print_all.simps)
  show ?thesis
    using sorted_items_distinct [OF assms] srt run rows by blast
qed

theorem print_website_sorted_danger_witness:
  "distinct (map fst sample_table)
   \<and> map fst (sorted_items sample_table) = [''CNN'', ''k nn'']
   \<and> row_lines sample_lib (''CNN'', \<lparr>training_time = 900, testing_time = 2, accuracy = 0.85\<rparr>)
       = [''<tr>'',
          [CHR 0x09] @ ''<td>CNN</td>'',
          [CHR 0x09] @ ''<td align=\"right\" class=\"danger\">0.0%</td>'',
          [CHR 0x09] @ ''<td align=\"right\">0.0s</td>'',
          [CHR 0x09] @ ''<td align=\"right\" >0.0s</td>'',
          ''</tr>'']"
proof -
  have h: "distinct (map fst sample_table)"
    by (simp add: sample_table_def)
  have s: "map fst (sorted_items sample_table) = [''CNN'', ''k nn'']"
    by (simp add: sample_table_def sorted_items_def)
  have m: "(''CNN'', \<lparr>training_time = 900, testing_time = 2, accuracy = 0.85\<rparr>)
      \<in> set sample_table"
    by (simp add: sample_table_def)
  show ?thesis
    using h s m print_website_sorted_danger [OF h, of sample_lib "[]"]
    by (auto simp add: sample_lib_def)
qed

section \<open>Calls and events of the programs\<close>

lemma calls_simps [simp]:
  "calls [] = []"
  "calls (xs @ ys) = calls xs @ calls ys"
  "calls (Stdout s # xs) = calls xs"
  "calls (Time # xs) = calls xs"
  "calls (Fit c # xs) = Fit c # calls xs"
  "calls (Predict c i # xs) = Predict c i # calls xs"
  "calls (ConfusionMatrix c # xs) = ConfusionMatrix c # calls xs"
  "calls (AccuracyScore c # xs) = AccuracyScore c # calls xs"
  "calls (FetchMldata s # xs) = FetchMldata s # calls xs"
  "calls (Shuffle n # xs) = Shuffle n # calls xs"
  "calls (TrainTestSplit r n # xs) = TrainTestSplit r n # calls xs"
  by (simp_all add: calls_def is_call_def)

lemma conforms_returnP: "conforms (returnP x) []"
  by (simp add: conforms_def)

lemma conforms_print: "conforms (print s) []"
  by (simp add: conforms_def)

lemma conforms_time: "conforms (time_time lib) []"
  by (simp add: conforms_def)

lemma conforms_call: "is_call ev \<Longrightarrow> conforms (call ev r) [ev]"
  by (simp add: conforms_def calls_def)

lemma conforms_bindP:
  assumes "conforms m L1" and "\<And>x. conforms (f x) L2"
  shows "conforms (bindP m f) (L1 @ L2)"
  unfolding conforms_def
proof (intro allI conjI impI)
  fix h
  show "prefix (calls (snd (bindP m f h))) (L1 @ L2)"
  proof (cases "fst (m h)")
    case (Inl e)
    then show ?thesis
      using assms(1) by (simp add: bindP_snd conforms_def prefix_def) (metis append.assoc)
  next
    case (Inr x)
    then have "calls (snd (m h)) = L1"
      using assms(1) by (simp add: conforms_def)
    then show ?thesis
      using Inr assms(2) [of x] by (simp add: bindP_snd conforms_def)
  qed
next
  fix h x
  assume ok: "fst (bindP m f h) = Inr x"
  then obtain x0 where x0: "fst (m h) = Inr x0"
    by (auto simp add: bindP_fst split: sum.splits)
  then have "calls (snd (m h)) = L1"
    using assms(1) by (simp add: conforms_def)
  moreover have "calls (snd (f x0 (h @ snd (m h)))) = L2"
    using ok x0 assms(2) [of x0] by (simp add: bindP_fst conforms_def)
  ultimately show "calls (snd (bindP m f h)) = L1 @ L2"
    using x0 by (simp add: bindP_snd)
qed

lemma conforms_predict_chunks:
  "conforms (predict_chunks lib c m xs js acc) (map (Predict c) js)"
proof (induction js arbitrary: acc)
  case Nil
  show ?case by (simp add: conforms_returnP)
next
  case (Cons j js)
  have "conforms (predict_chunks lib c m xs (j # js) acc) ([Predict c j] @ map (Predict c) js)"
    unfolding predict_chunks.simps
    by (rule conforms_bindP) (simp_all add: conforms_call is_call_def Cons)
  then show ?case by simp
qed

lemma conforms_analyze:
  "conforms (analyze lib c m d fit_time clf_name) (eval_calls (length (X (test d))) c)"
proof -
  have "conforms (analyze lib c m d fit_time clf_name)
     ([] @ map (Predict c) (py_range 0 (length (X (test d))) 128) @ [] @ [] @ [] @ []
        @ [ConfusionMatrix c] @ [] @ [AccuracyScore c] @ [] @ [])"
    unfolding analyze_def
    by (intro conforms_bindP conforms_time conforms_predict_chunks conforms_print
        conforms_call conforms_returnP) (simp_all add: is_call_def)
  then show ?thesis by (simp add: eval_calls_def)
qed

lemma conforms_fit_all:
  "conforms (fit_all lib d cs cdata)
     (concat (map (clf_calls (length (X (test d)))) (map snd cs)))"
proof (induction cs arbitrary: cdata)
  case Nil
  show ?case by (simp add: conforms_returnP)
next
  case (Cons a cs)
  obtain clf_name c where a: "a = (clf_name, c)" by (cases a)
  have "conforms (fit_all lib d ((clf_name, c) # cs) cdata)
     ([] @ [] @ [] @ [Fit c] @ [] @ eval_calls (length (X (test d))) c
        @ concat (map (clf_calls (length (X (test d)))) (map snd cs)))"
    unfolding fit_all.simps
    by (intro conforms_bindP conforms_time conforms_print conforms_call conforms_analyze Cons)
      (simp_all add: is_call_def)
  then show ?case by (simp add: a clf_calls_def [of _ c])
qed

lemma conforms_get_data: "conforms (get_data lib) data_calls"
proof -
  have "conforms (get_data lib)
     ([FetchMldata ''MNIST original''] @ [Shuffle 0] @ [TrainTestSplit 0.33 42] @ [])"
    unfolding get_data_def Let_def case_prod_beta
    by (intro conforms_bindP conforms_call conforms_returnP) (simp_all add: is_call_def)
  then show ?thesis by (simp add: data_calls_def)
qed

lemma calls_Stdout [simp]: "calls (map Stdout ss) = []"
  by (induction ss) simp_all

lemma conforms_print_website: "conforms (print_website lib cdata) []"
  by (simp add: conforms_def print_website_def print_all_snd del: print_all.simps)

lemma main_calls:
  "\<exists>n. prefix (calls (snd (main lib h)))
          (data_calls @ concat (map (clf_calls n) (map snd classifiers)))
     \<and> (fst (main lib h) = Inr () \<longrightarrow>
          calls (snd (main lib h)) = data_calls @ concat (map (clf_calls n) (map snd classifiers)))"
proof (cases "fst (get_data lib h)")
  case (Inl e)
  have "prefix (calls (snd (get_data lib h))) data_calls"
    using conforms_get_data [of lib] by (simp add: conforms_def)
  then show ?thesis
    using Inl by (auto simp add: main_def bindP_fst bindP_snd intro: prefix_order.trans)
next
  case (Inr d)
  let ?m = "\<lambda>d. bindP (fit_all lib d classifiers []) (\<lambda>cdata. print_website lib cdata)"
  let ?L = "concat (map (clf_calls (length (X (test d)))) (map snd classifiers))"
  have "conforms (?m d) (?L @ [])"
    by (intro conforms_bindP conforms_fit_all conforms_print_website)
  then have c2: "conforms (?m d) ?L" by simp
  have c1: "calls (snd (get_data lib h)) = data_calls"
    using conforms_get_data [of lib] Inr by (simp add: conforms_def)
  have "prefix (calls (snd (main lib h))) (data_calls @ ?L)
      \<and> (fst (main lib h) = Inr () \<longrightarrow> calls (snd (main lib h)) = data_calls @ ?L)"
    using Inr c1 c2 by (simp add: main_def bindP_fst bindP_snd conforms_def)
  then show ?thesis by blast
qed

lemma emits_returnP: "emits P (returnP x)"
  by (simp add: emits_def)

lemma emits_raiseP: "emits P (raiseP e)"
  by (simp add: emits_def raiseP_def)

lemma emits_print: "P (Stdout s) \<Longrightarrow> emits P (print s)"
  by (simp add: emits_def)

lemma emits_call: "P ev \<Longrightarrow> emits P (call ev r)"
  by (simp add: emits_def)

lemma emits_bindP: "emits P m \<Longrightarrow> (\<And>x. emits P (f x)) \<Longrightarrow> emits P (bindP m f)"
  by (auto simp add: emits_def bindP_snd split: sum.splits)

lemma emits_if: "(b \<Longrightarrow> emits P m) \<Longrightarrow> (\<not> b \<Longrightarrow> emits P n) \<Longrightarrow> emits P (if b then m else n)"
  by simp

lemma emits_build_model:
  assumes "\<And>s. P (Stdout s)" "\<And>n s. P (CreateModel n s)"
    "P (CreateDenseNet (dense_args nb shape))"
  shows "emits P (build_model cfg lib nb shape)"
  unfolding build_model_def
  by (intro emits_if emits_bindP emits_call emits_print emits_returnP assms)

lemma emits_fit_plain:
  assumes "\<And>s. P (Stdout s)"
    "P (ModelFit \<lparr>fa_x = X_train, fa_y = Y_train, fa_batch_size = batch_size,
                   fa_nb_epoch = nb_epoch, fa_validation_data = (X_val, Y_val),
                   fa_shuffle = True\<rparr>)"
  shows "emits P (fit_plain lib model X_train Y_train X_val Y_val)"
  unfolding fit_plain_def Let_def
  by (intro emits_bindP emits_call emits_print assms)

lemma emits_history_get: "emits P (history_get hist k)"
  by (simp add: history_get_def emits_returnP emits_raiseP split: option.splits)

lemma emits_fit_augmented:
  assumes "\<And>s. P (Stdout s)" "\<And>a. P (NewDatagen a)" "\<And>n. P (DatagenFit n)"
    "\<And>p rows. P (FileWrite p rows)"
    "P (FitGenerator \<lparr>fg_flow_x = X_train, fg_flow_y = Y_train,
          fg_flow_batch_size = batch_size,
          fg_samples_per_epoch = length X_train, fg_nb_epoch = nb_epoch,
          fg_validation_data = (X_train, Y_train), fg_callbacks = [checkpoint]\<rparr>)"
  shows "emits P (fit_augmented lib model X_train Y_train)"
  unfolding fit_augmented_def Let_def case_prod_beta
  by (intro emits_bindP emits_call emits_print emits_returnP emits_history_get assms)

lemma emits_bind_call:
  "P ev \<Longrightarrow> (\<And>x. r = Inr x \<Longrightarrow> emits P (f x)) \<Longrightarrow> emits P (bindP (call ev r) f)"
  by (auto simp add: emits_def bindP_snd split: sum.splits)

lemma emits_bind_if_call:
  assumes "b \<Longrightarrow> P ev" and "\<And>x. (if b then r = Inr x else x = v) \<Longrightarrow> emits P (f x)"
  shows "emits P (bindP (if b then call ev r else returnP v) f)"
  using assms by (auto simp add: emits_def bindP_snd split: sum.splits)

lemma emits_train_with:
  assumes "\<And>s. P (Stdout s)" "P LoadData" "P (ToCategorical (gtsdb_n_classes lib))"
    "\<And>s. P (NpLoad s)"
    "P ImageDimOrdering" "\<And>n s. P (CreateModel n s)"
    "\<And>shape. P (CreateDenseNet (dense_args (gtsdb_n_classes lib) shape))"
    "P Summary" "\<And>a b c. P (Compile a b c)" "P AsType" "\<And>a. P (NewDatagen a)"
    "\<And>n. P (DatagenFit n)" "\<And>p rows. P (FileWrite p rows)" "\<And>p. P (ModelSave p)"
    "\<And>A B. P (FitGenerator \<lparr>fg_flow_x = A, fg_flow_y = B,
          fg_flow_batch_size = batch_size,
          fg_samples_per_epoch = length A, fg_nb_epoch = nb_epoch,
          fg_validation_data = (A, B), fg_callbacks = [checkpoint]\<rparr>)"
    "\<And>A B Bv. (\<not> load_smoothed_labels cfg \<Longrightarrow> Bv = B) \<Longrightarrow>
       P (ModelFit \<lparr>fa_x = A, fa_y = B, fa_batch_size = batch_size,
                   fa_nb_epoch = nb_epoch, fa_validation_data = (A, Bv),
                   fa_shuffle = True\<rparr>)"
  shows "emits P (train_with cfg lib)"
  unfolding train_with_def Let_def
  apply (rule emits_bind_call, rule assms)
  apply (rule emits_bind_call, rule assms)
  apply (rule emits_bindP, rule emits_print, rule assms)
  apply (rule emits_bindP, rule emits_print, rule assms)
  apply (rule emits_bind_if_call, rule assms)
  apply (rule emits_bind_call, rule assms)
  apply (rule emits_bind_call, rule assms)
  apply (rule emits_bindP, rule emits_build_model, (rule assms)+)
  apply (rule emits_bindP, rule emits_print, rule assms)
  apply (rule emits_bindP)
   apply (simp add: the_model_def emits_returnP emits_raiseP split: option.splits)
  apply (rule emits_bind_call, rule assms)
  apply (rule emits_bind_call, rule assms)
  apply (rule emits_bindP, rule emits_print, rule assms)
  apply (rule emits_bindP, rule emits_print, rule assms)
  apply (rule emits_bind_call, rule assms)
  apply (rule emits_bind_call, rule assms)
  apply (rule emits_bindP)
   apply (rule emits_if)
    apply (rule emits_fit_plain, rule assms)
    apply clarsimp
    apply (rule assms(16))
    apply (simp split: if_splits)
   apply (rule emits_fit_augmented, (rule assms)+)
  apply (rule emits_call, rule assms)
  done

section \<open>Runs that return\<close>

lemma bindP_InrE:
  assumes "bindP m f h = (Inr v, es)"
  obtains x es1 es2 where "m h = (Inr x, es1)" "f x (h @ es1) = (Inr v, es2)" "es = es1 @ es2"
  using assms by (auto simp add: bindP_def split: prod.splits sum.splits)

lemma call_InrE:
  assumes "call ev r h = (Inr x, es)"
  obtains "r = Inr x" "es = [ev]"
  using assms by (auto simp add: call_def)

lemma print_InrE:
  assumes "print s h = (Inr x, es)"
  obtains "es = [Stdout s]"
  using assms by (auto simp add: print_def)

lemma returnP_InrE:
  assumes "returnP v h = (Inr x, es)"
  obtains "x = v" "es = []"
  using assms by (auto simp add: returnP_def)


lemma history_get_InrE:
  assumes "history_get hist k h = (Inr v, es)"
  obtains "hist k = Some v" "es = []"
  using assms by (auto simp add: history_get_def returnP_def raiseP_def split: option.splits)

lemma fit_augmented_success:
  assumes "fit_augmented lib model A B h = (Inr m', es)"
  shows "\<exists>hist loss acc val.
     k_fit_generator lib model
        \<lparr>fg_flow_x = A, fg_flow_y = B, fg_flow_batch_size = batch_size,
          fg_samples_per_epoch = length A, fg_nb_epoch = nb_epoch,
          fg_validation_data = (A, B), fg_callbacks = [checkpoint]\<rparr> = Inr (m', hist)
   \<and> hist ''loss'' = Some loss \<and> hist ''acc'' = Some acc \<and> hist ''val_acc'' = Some val
   \<and> es = [Stdout ''Using real-time data augmentation.'', NewDatagen datagen_config,
        DatagenFit 0,
        FitGenerator \<lparr>fg_flow_x = A, fg_flow_y = B, fg_flow_batch_size = batch_size,
          fg_samples_per_epoch = length A, fg_nb_epoch = nb_epoch,
          fg_validation_data = (A, B), fg_callbacks = [checkpoint]\<rparr>,
        FileWrite ''history.csv'' (csv_header # history_rows lib loss acc val)]"
  apply (insert assms)
  apply (unfold fit_augmented_def Let_def)
  apply (elim bindP_InrE call_InrE print_InrE)
  apply (clarsimp simp add: case_prod_beta)
  apply (elim bindP_InrE call_InrE print_InrE returnP_InrE history_get_InrE)
  apply (auto simp add: prod_eq_iff)
  done

lemma build_model_dense:
  "build_model script_config lib nb shape =
     bindP (call (CreateDenseNet (dense_args nb shape))
              (create_dense_net lib (dense_args nb shape)))
       (\<lambda>model. returnP (Some model))"
  by (simp add: build_model_def script_config_def)

lemma the_model_Some: "the_model (Some m) = returnP m"
  by (simp add: the_model_def)

lemma train_success:
  assumes "train lib h = (Inr u, es)"
  shows "\<exists>d Y ord A hist loss acc val m0 m m'.
     gtsdb_load_data lib = Inr d
   \<and> to_categorical lib (y_train d) (gtsdb_n_classes lib) = Inr Y
   \<and> image_dim_ordering lib = Inr ord
   \<and> create_dense_net lib (dense_args (gtsdb_n_classes lib)
          (if ord = ''th'' then (img_channels, img_rows, img_cols)
           else (img_rows, img_cols, img_channels))) = Inr m0
   \<and> compile lib m0 ''categorical_crossentropy'' (1 / 10000) [''accuracy''] = Inr m
   \<and> astype_float32 lib (x_train d) = Inr A
   \<and> k_fit_generator lib m
        \<lparr>fg_flow_x = map (map (\<lambda>v. v / 255)) A, fg_flow_y = Y,
          fg_flow_batch_size = batch_size,
          fg_samples_per_epoch = length A, fg_nb_epoch = nb_epoch,
          fg_validation_data = (map (map (\<lambda>v. v / 255)) A, Y),
          fg_callbacks = [checkpoint]\<rparr> = Inr (m', hist)
   \<and> hist ''loss'' = Some loss \<and> hist ''acc'' = Some acc \<and> hist ''val_acc'' = Some val
   \<and> es =
       [LoadData, ToCategorical (gtsdb_n_classes lib), Stdout (k_str_shape lib Y),
        Stdout (k_str_shape lib Y), ToCategorical (gtsdb_n_classes lib), ImageDimOrdering,
        CreateDenseNet (dense_args (gtsdb_n_classes lib)
          (if ord = ''th'' then (img_channels, img_rows, img_cols)
           else (img_rows, img_cols, img_channels))),
        Stdout ''Model created'', Summary,
        Compile ''categorical_crossentropy'' (1 / 10000) [''accuracy''],
        Stdout ''Finished compiling'', Stdout ''Building model...'', AsType, AsType,
        Stdout ''Using real-time data augmentation.'', NewDatagen datagen_config,
        DatagenFit 0,
        FitGenerator \<lparr>fg_flow_x = map (map (\<lambda>v. v / 255)) A, fg_flow_y = Y,
          fg_flow_batch_size = batch_size,
          fg_samples_per_epoch = length A, fg_nb_epoch = nb_epoch,
          fg_validation_data = (map (map (\<lambda>v. v / 255)) A, Y),
          fg_callbacks = [checkpoint]\<rparr>,
        FileWrite ''history.csv'' (csv_header # history_rows lib loss acc val),
        ModelSave ''gtsdb.h5'']"
proof -
  have cfg: "load_smoothed_labels script_config = False" "data_augmentation script_config = True"
    by (simp_all add: script_config_def)
  from assms have run: "train_with script_config lib h = (Inr u, es)"
    by (simp add: train_def)
  show ?thesis
    apply (insert run)
    apply (unfold train_with_def Let_def build_model_dense cfg if_False if_True not_True_eq_False)
    apply (elim bindP_InrE call_InrE print_InrE returnP_InrE)
    apply (simp only: the_model_Some)
    apply (elim bindP_InrE call_InrE print_InrE returnP_InrE)
    apply (drule fit_augmented_success)
    apply (elim exE conjE)
    apply (clarsimp split del: if_split)
    done
qed

section \<open>Script one\<close>

lemma script_config_simps:
  "load_smoothed_labels script_config = False" "data_augmentation script_config = True"
  by (simp_all add: script_config_def)

lemma emits_the_model: "emits P (the_model model)"
  by (simp add: the_model_def emits_returnP emits_raiseP split: option.splits)

lemma emits_train:
  assumes "\<And>s. P (Stdout s)" "P LoadData" "P (ToCategorical (gtsdb_n_classes lib))"
    "P ImageDimOrdering"
    "\<And>shape. P (CreateDenseNet (dense_args (gtsdb_n_classes lib) shape))"
    "P Summary" "\<And>a b c. P (Compile a b c)" "P AsType" "\<And>a. P (NewDatagen a)"
    "\<And>n. P (DatagenFit n)" "\<And>p rows. P (FileWrite p rows)" "\<And>p. P (ModelSave p)"
    "\<And>A B. P (FitGenerator \<lparr>fg_flow_x = A, fg_flow_y = B,
          fg_flow_batch_size = batch_size,
          fg_samples_per_epoch = length A, fg_nb_epoch = nb_epoch,
          fg_validation_data = (A, B), fg_callbacks = [checkpoint]\<rparr>)"
  shows "emits P (train lib)"
  unfolding train_def train_with_def Let_def build_model_dense script_config_simps
    if_False if_True not_True_eq_False
  by (intro emits_bindP emits_call emits_print emits_returnP emits_fit_augmented
      emits_the_model assms)

lemma emits_script_one:
  "emits P (train lib) \<Longrightarrow> \<forall>e \<in> set (snd (script_one argv lib)). P e"
  by (simp add: emits_def script_one_def)

lemma sample_keras_runs: "fst (script_one argv sample_keras) = Inr ()"
  by (simp add: script_one_def train_def train_with_def script_config_def build_model_def
      the_model_def fit_augmented_def history_get_def sample_history_def
      bindP_def call_def print_def returnP_def sample_keras_def Let_def)

lemma sample_keras_plain_fit:
  "\<exists>a. ModelFit a \<in> set (snd (train_with plain_config sample_keras []))"
  by (simp add: train_with_def plain_config_def build_model_def
      the_model_def fit_plain_def
      bindP_def call_def print_def returnP_def sample_keras_def Let_def)

lemma script_one_success:
  assumes "fst (script_one argv lib) = Inr u"
  shows "train lib [] = (Inr u, snd (script_one argv lib))"
  using assms by (simp add: script_one_def prod_eq_iff)


lemma script_one_creates:
  assumes "fst (script_one argv lib) = Inr u"
  shows "\<exists>a. CreateDenseNet a \<in> set (snd (script_one argv lib))
     \<and> dn_nb_classes a = gtsdb_n_classes lib \<and> dn_depth a = 100
     \<and> dn_nb_dense_block a = 3 \<and> dn_growth_rate a = 12"
  apply (insert train_success [OF script_one_success [OF assms]])
  apply (elim exE conjE)
  apply (simp add: dense_args_def)
  done

lemma script_one_fits:
  assumes "fst (script_one argv lib) = Inr u"
  shows "\<exists>a. FitGenerator a \<in> set (snd (script_one argv lib))"
  apply (insert train_success [OF script_one_success [OF assms]])
  apply (elim exE conjE)
  apply simp
  done



text \<open>
  C1. Script one passes \<^verbatim>\<open>gtsdb.n_classes\<close> on unchanged: when that value is
  the 100 of the specification, every call of \<^verbatim>\<open>densenet.create_dense_net\<close> and of
  \<^verbatim>\<open>to_categorical\<close> in a run is made with 100 classes, the other model
  (\<^verbatim>\<open>sequential_model.create_model\<close>) is never built, and a run that returns has built
  its network by \<^verbatim>\<open>create_dense_net\<close> with 100 classes, depth 100, three dense blocks
  and growth rate 12.
\<close>

theorem create_dense_net_gets_100_classes:
  assumes "gtsdb_n_classes lib = n_classes"
  shows "(\<forall>e \<in> set (snd (script_one argv lib)).
            (\<forall>a. e = CreateDenseNet a \<longrightarrow> dn_nb_classes a = 100)
          \<and> (\<forall>n. e = ToCategorical n \<longrightarrow> n = 100)
          \<and> (\<forall>n s. e \<noteq> CreateModel n s))
       \<and> (fst (script_one argv lib) = Inr () \<longrightarrow>
            (\<exists>a. CreateDenseNet a \<in> set (snd (script_one argv lib))
               \<and> dn_nb_classes a = 100 \<and> dn_depth a = 100 \<and> dn_nb_dense_block a = 3
               \<and> dn_growth_rate a = 12))"
proof -
  let ?P = "\<lambda>e. (\<forall>a. e = CreateDenseNet a \<longrightarrow> dn_nb_classes a = 100)
          \<and> (\<forall>n. e = ToCategorical n \<longrightarrow> n = 100)
          \<and> (\<forall>n s. e \<noteq> CreateModel n s)"
  have "emits ?P (train lib)"
    by (rule emits_train) (simp_all add: dense_args_def assms n_classes_def)
  then have all: "\<forall>e \<in> set (snd (script_one argv lib)). ?P e"
    by (rule emits_script_one)
  have built: "\<exists>a. CreateDenseNet a \<in> set (snd (script_one argv lib))
               \<and> dn_nb_classes a = 100 \<and> dn_depth a = 100 \<and> dn_nb_dense_block a = 3
               \<and> dn_growth_rate a = 12"
    if ok: "fst (script_one argv lib) = Inr ()"
    using script_one_creates [OF ok] by (simp add: assms n_classes_def)
  from all built show ?thesis by blast
qed

theorem create_dense_net_gets_100_classes_witness:
  "gtsdb_n_classes sample_keras = n_classes
   \<and> fst (script_one [] sample_keras) = Inr ()
   \<and> (\<exists>a. CreateDenseNet a \<in> set (snd (script_one [] sample_keras))
         \<and> dn_nb_classes a = 100)"
proof -
  have h: "gtsdb_n_classes sample_keras = n_classes"
    by (simp add: sample_keras_def n_classes_def)
  show ?thesis
    using h sample_keras_runs [of "[]"]
      create_dense_net_gets_100_classes [OF h, of "[]"]
    by auto
qed

text \<open>
  C3. In script one the validation set is the training set. Every call of
  \<^verbatim>\<open>fit_generator\<close> in a run is given as \<^verbatim>\<open>validation_data\<close> the very
  arrays it trains on, and as its only callback the checkpoint that monitors
  \<^verbatim>\<open>val_acc\<close> and keeps the best model only; a run that returns has made that call,
  and \<^verbatim>\<open>model.fit\<close> is never called. \<^verbatim>\<open>X_val, y_val\<close> are bound to
  \<^verbatim>\<open>X_train, y_train\<close>: were \<^verbatim>\<open>data_augmentation\<close> switched off (the labels
  not replaced by smoothed ones), \<^verbatim>\<open>model.fit\<close> would be given as
  \<^verbatim>\<open>validation_data\<close> the arrays it trains on, too.
\<close>

theorem validation_data_is_training_data:
  "(\<forall>e \<in> set (snd (script_one argv lib)).
       (\<forall>a. e = FitGenerator a \<longrightarrow>
           fg_validation_data a = (fg_flow_x a, fg_flow_y a)
         \<and> fg_callbacks a = [checkpoint])
     \<and> (\<forall>a. e \<noteq> ModelFit a))
   \<and> cb_monitor checkpoint = ''val_acc'' \<and> cb_save_best_only checkpoint
   \<and> (fst (script_one argv lib) = Inr () \<longrightarrow>
        (\<exists>a. FitGenerator a \<in> set (snd (script_one argv lib))))
   \<and> (\<forall>cfg. \<not> load_smoothed_labels cfg \<longrightarrow>
        (\<forall>e \<in> set (snd (train_with cfg lib h)).
           \<forall>a. e = ModelFit a \<longrightarrow> fa_validation_data a = (fa_x a, fa_y a)))"
proof -
  let ?P = "\<lambda>e. (\<forall>a. e = FitGenerator a \<longrightarrow>
           fg_validation_data a = (fg_flow_x a, fg_flow_y a)
         \<and> fg_callbacks a = [checkpoint])
     \<and> (\<forall>a. e \<noteq> ModelFit a)"
  have "emits ?P (train lib)"
    by (rule emits_train) simp_all
  then have all: "\<forall>e \<in> set (snd (script_one argv lib)). ?P e"
    by (rule emits_script_one)
  have cb: "cb_monitor checkpoint = ''val_acc''" "cb_save_best_only checkpoint"
    by (simp_all add: checkpoint_def)
  have plain: "\<forall>e \<in> set (snd (train_with cfg lib h)).
           \<forall>a. e = ModelFit a \<longrightarrow> fa_validation_data a = (fa_x a, fa_y a)"
    if "\<not> load_smoothed_labels cfg" for cfg
  proof -
    have "emits (\<lambda>e. \<forall>a. e = ModelFit a \<longrightarrow> fa_validation_data a = (fa_x a, fa_y a))
        (train_with cfg lib)"
      by (rule emits_train_with) (simp_all add: that)
    then show ?thesis by (simp add: emits_def)
  qed
  from all cb script_one_fits [of argv lib "()"] plain show ?thesis by blast
qed

theorem validation_data_is_training_data_witness:
  "fst (script_one [] sample_keras) = Inr ()
   \<and> \<not> load_smoothed_labels plain_config
   \<and> (\<exists>a. FitGenerator a \<in> set (snd (script_one [] sample_keras))
         \<and> fg_validation_data a = (fg_flow_x a, fg_flow_y a)
         \<and> map cb_monitor (fg_callbacks a) = [''val_acc''])
   \<and> (\<exists>a. ModelFit a \<in> set (snd (train_with plain_config sample_keras []))
         \<and> fa_validation_data a = (fa_x a, fa_y a))"
proof -
  have c: "\<not> load_smoothed_labels plain_config"
    by (simp add: plain_config_def)
  note t = validation_data_is_training_data [of "[]" sample_keras "[]"]
  have ok: "fst (script_one [] sample_keras) = Inr ()"
    by (rule sample_keras_runs)
  from script_one_fits [OF ok]
  obtain a where a: "FitGenerator a \<in> set (snd (script_one [] sample_keras))" ..
  have fg: "fg_validation_data a = (fg_flow_x a, fg_flow_y a) \<and> fg_callbacks a = [checkpoint]"
    using t [THEN conjunct1, THEN bspec, OF a] by simp
  then have mon: "map cb_monitor (fg_callbacks a) = [''val_acc'']"
    by (simp add: checkpoint_def)
  from sample_keras_plain_fit
  obtain b where b: "ModelFit b \<in> set (snd (train_with plain_config sample_keras []))" ..
  have fa: "fa_validation_data b = (fa_x b, fa_y b)"
    using t [THEN conjunct2, THEN conjunct2, THEN conjunct2, THEN conjunct2, THEN spec,
        THEN mp, OF c, THEN bspec, OF b]
    by simp
  have e1: "\<exists>a. FitGenerator a \<in> set (snd (script_one [] sample_keras))
         \<and> fg_validation_data a = (fg_flow_x a, fg_flow_y a)
         \<and> map cb_monitor (fg_callbacks a) = [''val_acc'']"
    using a fg mon by (intro exI [of _ a]) simp
  have e2: "\<exists>a. ModelFit a \<in> set (snd (train_with plain_config sample_keras []))
         \<and> fa_validation_data a = (fa_x a, fa_y a)"
    using b fa by (intro exI [of _ b]) simp
  show ?thesis
    by (rule conjI ok c e1 e2)+
qed




section \<open>Script two: the classifiers and their fits\<close>

lemma classifiers_length: "length classifiers = 12"
  by (simp add: classifiers_def)

lemma classifiers_distinct: "distinct (map snd classifiers)" "distinct (map fst classifiers)"
  by (simp_all add: classifiers_def)

lemma filter_fit_calls: "filter is_fit (calls tr) = filter is_fit tr"
  by (induction tr) (auto simp add: calls_def is_call_def is_fit_def split: event.splits)

lemma filter_fit_clf_calls: "filter is_fit (clf_calls n c) = [Fit c]"
  by (simp add: clf_calls_def eval_calls_def is_fit_def filter_map comp_def)

lemma filter_fit_blocks: "filter is_fit (concat (map (clf_calls n) cs)) = map Fit cs"
  by (induction cs) (simp_all add: filter_fit_clf_calls)

lemma main_fits:
  "prefix (filter is_fit (snd (main lib h))) (map Fit (map snd classifiers))
   \<and> (fst (main lib h) = Inr () \<longrightarrow>
        filter is_fit (snd (main lib h)) = map Fit (map snd classifiers))"
proof -
  from main_calls [of lib h] obtain n where
    p: "prefix (calls (snd (main lib h)))
          (data_calls @ concat (map (clf_calls n) (map snd classifiers)))"
    and q: "fst (main lib h) = Inr () \<longrightarrow>
          calls (snd (main lib h)) = data_calls @ concat (map (clf_calls n) (map snd classifiers))"
    by blast
  have full: "filter is_fit (data_calls @ concat (map (clf_calls n) (map snd classifiers)))
      = map Fit (map snd classifiers)"
    using filter_fit_blocks [of n "map snd classifiers"]
    by (simp add: data_calls_def is_fit_def)
  from filter_mono_prefix [OF p, of is_fit]
  have "prefix (filter is_fit (snd (main lib h))) (map Fit (map snd classifiers))"
    by (simp only: filter_fit_calls full)
  moreover have "filter is_fit (snd (main lib h)) = map Fit (map snd classifiers)"
    if "fst (main lib h) = Inr ()"
    using q that full filter_fit_calls [of "snd (main lib h)"] by simp
  ultimately show ?thesis by blast
qed

lemma sample_lib_calls:
  "fetch_mldata sample_lib s = Inr ([[0], [255], [51]], [0, 1, 0])"
  "shuffle sample_lib x0 y0 k = Inr (x0, y0)"
  "train_test_split sample_lib x0 y0 r k = Inr (take 2 x0, drop 2 x0, take 2 y0, drop 2 y0)"
  "fit sample_lib c x0 y0 = Inr ()"
  "predict sample_lib m rows = Inr (map sum_list rows)"
  "confusion_matrix sample_lib y0 y1 = Inr ''[[1]]''"
  "accuracy_score sample_lib y0 y1 = Inr (if y0 = y1 then 1 else 0)"
  by (simp_all add: sample_lib_def)

lemma bindP_returns:
  assumes "\<And>h. \<exists>x. fst (m h) = Inr x" and "\<And>x h. \<exists>v. fst (f x h) = Inr v"
  shows "\<exists>v. fst (bindP m f h) = Inr v"
proof -
  from assms(1) obtain x where "fst (m h) = Inr x" by blast
  then show ?thesis
    using assms(2) by (simp add: bindP_fst)
qed

lemma sample_predict_chunks:
  "\<exists>p. fst (predict_chunks sample_lib c m xs js acc h) = Inr p"
  by (induction js arbitrary: acc h) (simp_all add: bindP_fst sample_lib_calls)

lemma sample_analyze: "\<exists>r. fst (analyze sample_lib c m d ft nm h) = Inr r"
  unfolding analyze_def
  by (intro bindP_returns) (simp_all add: sample_lib_calls sample_predict_chunks)

lemma sample_fit_all: "\<exists>cd. fst (fit_all sample_lib d cs cdata h) = Inr cd"
proof (induction cs arbitrary: cdata h)
  case Nil
  show ?case by simp
next
  case (Cons a cs)
  obtain nm c where a: "a = (nm, c)" by (cases a)
  show ?case
    unfolding a fit_all.simps
    by (intro bindP_returns) (simp_all add: sample_lib_calls sample_analyze Cons)
qed

lemma sample_get_data: "\<exists>d. fst (get_data sample_lib h) = Inr d"
  unfolding get_data_def Let_def case_prod_beta
  by (intro bindP_returns) (simp_all add: sample_lib_calls)

lemma sample_lib_runs: "fst (script_two argv sample_lib) = Inr ()"
proof -
  have "\<exists>v. fst (main sample_lib []) = Inr v"
    unfolding main_def
    by (intro bindP_returns)
      (simp_all add: sample_get_data sample_fit_all print_website_def print_all_fst
        del: print_all.simps)
  then show ?thesis
    by (simp add: script_two_def)
qed

text \<open>
  C2. The list of classifiers built in \<^verbatim>\<open>main\<close> has twelve entries, all different.
  In every run the calls of \<^verbatim>\<open>fit\<close> are made on the classifiers of the list, in the
  order of the list, each at most once (a run that stops early has fitted the first few);
  a run that returns has called \<^verbatim>\<open>fit\<close> exactly once on each of the twelve.
\<close>

theorem main_fits_each_classifier_once:
  "length classifiers = 12
   \<and> distinct (map snd classifiers)
   \<and> prefix (filter is_fit (snd (script_two argv lib))) (map (Fit \<circ> snd) classifiers)
   \<and> distinct (filter is_fit (snd (script_two argv lib)))
   \<and> (fst (script_two argv lib) = Inr () \<longrightarrow>
        filter is_fit (snd (script_two argv lib)) = map (Fit \<circ> snd) classifiers
      \<and> length (filter is_fit (snd (script_two argv lib))) = 12)"
proof -
  have d: "distinct (map (Fit \<circ> snd) classifiers)"
    using classifiers_distinct(1) by (simp add: distinct_map inj_on_def comp_def)
  have p: "prefix (filter is_fit (snd (script_two argv lib))) (map (Fit \<circ> snd) classifiers)"
    using main_fits [of lib "[]"] by (simp add: script_two_def)
  then have "distinct (filter is_fit (snd (script_two argv lib)))"
    using d by (auto simp add: prefix_def)
  moreover have "filter is_fit (snd (script_two argv lib)) = map (Fit \<circ> snd) classifiers
      \<and> length (filter is_fit (snd (script_two argv lib))) = 12"
    if "fst (script_two argv lib) = Inr ()"
    using main_fits [of lib "[]"] that classifiers_length by (simp add: script_two_def)
  ultimately show ?thesis
    using p classifiers_length classifiers_distinct(1) by blast
qed

theorem main_fits_each_classifier_once_witness:
  "fst (script_two [] sample_lib) = Inr ()
   \<and> length (filter is_fit (snd (script_two [] sample_lib))) = 12
   \<and> hd (filter is_fit (snd (script_two [] sample_lib)))
       = Fit (Clf ''skflow.TensorFlowDNNClassifier'' []
           [(''hidden_units'', PInts [500, 200]), (''n_classes'', PInt 10),
            (''steps'', PInt 20000)])"
proof -
  have ok: "fst (script_two [] sample_lib) = Inr ()"
    by (rule sample_lib_runs)
  note t = main_fits_each_classifier_once [of "[]" sample_lib]
  from t ok have e: "filter is_fit (snd (script_two [] sample_lib)) = map (Fit \<circ> snd) classifiers"
    and l: "length (filter is_fit (snd (script_two [] sample_lib))) = 12"
    by simp_all
  have h: "hd (map (Fit \<circ> snd) classifiers)
       = Fit (Clf ''skflow.TensorFlowDNNClassifier'' []
           [(''hidden_units'', PInts [500, 200]), (''n_classes'', PInt 10),
            (''steps'', PInt 20000)])"
    by (simp add: classifiers_def)
  show ?thesis
    by (simp only: e) (simp add: ok h classifiers_length)
qed

section \<open>The order of events\<close>

lemma preceded_none: "\<forall>e \<in> set tr. \<not> Q e \<Longrightarrow> preceded P Q tr"
  by (induction tr) simp_all

lemma preceded_append_none:
  "\<forall>e \<in> set xs. \<not> Q e \<Longrightarrow> preceded P Q ys \<Longrightarrow> preceded P Q (xs @ ys)"
  by (induction xs) simp_all

lemma preceded_append_some:
  "\<forall>e \<in> set xs. \<not> Q e \<Longrightarrow> \<exists>e \<in> set xs. P e \<Longrightarrow> preceded P Q (xs @ ys)"
  by (induction xs) auto

lemma preceded_prefix: "preceded P Q (xs @ ys) \<Longrightarrow> preceded P Q xs"
  by (induction xs) auto

lemma preceded_calls:
  "\<forall>e. Q e \<longrightarrow> is_call e \<Longrightarrow> preceded P Q (calls tr) \<Longrightarrow> preceded P Q tr"
  by (induction tr) (auto simp add: calls_def split: if_splits)

lemma never_after_no_Q: "\<forall>e \<in> set tr. \<not> Q e \<Longrightarrow> never_after P Q tr"
  by (induction tr) simp_all

lemma never_after_no_P: "\<forall>e \<in> set tr. \<not> P e \<Longrightarrow> never_after P Q tr"
  by (induction tr) simp_all

lemma never_after_append:
  "never_after P Q (xs @ ys) \<longleftrightarrow>
     never_after P Q xs \<and> never_after P Q ys
     \<and> ((\<exists>e \<in> set xs. Q e) \<longrightarrow> (\<forall>e \<in> set ys. \<not> P e))"
  by (induction xs) auto

lemma never_after_appendI:
  "never_after P Q xs \<Longrightarrow> never_after P Q ys \<Longrightarrow> \<forall>e \<in> set ys. \<not> P e
     \<Longrightarrow> never_after P Q (xs @ ys)"
  by (simp add: never_after_append)

lemma never_after_calls:
  "\<forall>e. P e \<longrightarrow> is_call e \<Longrightarrow> \<forall>e. Q e \<longrightarrow> is_call e \<Longrightarrow> never_after P Q (calls tr)
     \<Longrightarrow> never_after P Q tr"
  by (induction tr) (auto simp add: calls_def split: if_splits)

lemma clf_calls_about: "e \<in> set (clf_calls n c) \<Longrightarrow> clf_of e = Some c"
  by (auto simp add: clf_calls_def eval_calls_def clf_of_def)


lemma data_calls_about: "e \<in> set data_calls \<Longrightarrow> clf_of e = None"
  by (auto simp add: data_calls_def clf_of_def)

lemma clf_of_is_call: "clf_of e = Some c \<Longrightarrow> is_call e"
  by (auto simp add: clf_of_def is_call_def split: event.splits)

text \<open>The calls of script two as a whole: fit before everything else about a classifier.\<close>

lemma blocks_fit_first:
  "preceded (\<lambda>e. e = Fit c) (\<lambda>e. clf_of e = Some c \<and> e \<noteq> Fit c)
     (concat (map (clf_calls n) cs))"
proof (induction cs)
  case Nil
  show ?case by simp
next
  case (Cons c' cs)
  show ?case
  proof (cases "c' = c")
    case True
    then show ?thesis by (simp add: clf_calls_def)
  next
    case False
    have "\<forall>e \<in> set (clf_calls n c'). \<not> (clf_of e = Some c \<and> e \<noteq> Fit c)"
      using False by (auto dest: clf_calls_about)
    then show ?thesis
      using Cons by (simp add: preceded_append_none)
  qed
qed

lemma blocks_eval_before_next:
  assumes "distinct cs" and "cs = pre @ c # post" and "c' \<in> set post"
  shows "preceded (\<lambda>e. e = AccuracyScore c) (\<lambda>e. e = Fit c') (concat (map (clf_calls n) cs))"
    and "never_after (\<lambda>e. clf_of e = Some c) (\<lambda>e. e = Fit c') (concat (map (clf_calls n) cs))"
proof -
  from assms have ne: "c' \<noteq> c" and np: "c' \<notin> set pre" and cp: "c \<notin> set post"
    by auto
  have split: "concat (map (clf_calls n) cs)
      = (concat (map (clf_calls n) pre) @ clf_calls n c) @ concat (map (clf_calls n) post)"
    by (simp add: assms(2))
  have no_fit_pre: "\<forall>e \<in> set (concat (map (clf_calls n) pre)). e \<noteq> Fit c'"
    using np by (auto dest!: clf_calls_about simp add: clf_of_def)
  have no_fit_c: "\<forall>e \<in> set (clf_calls n c). e \<noteq> Fit c'"
    using ne by (auto dest!: clf_calls_about simp add: clf_of_def)
  have has: "\<exists>e \<in> set (clf_calls n c). e = AccuracyScore c"
    by (simp add: clf_calls_def eval_calls_def)
  have a1: "preceded (\<lambda>e. e = AccuracyScore c) (\<lambda>e. e = Fit c')
      (clf_calls n c @ concat (map (clf_calls n) post))"
  proof (rule preceded_append_some)
    show "\<forall>e \<in> set (clf_calls n c). \<not> e = Fit c'"
      using no_fit_c by simp
    show "\<exists>e \<in> set (clf_calls n c). e = AccuracyScore c"
      by (rule has)
  qed
  have "preceded (\<lambda>e. e = AccuracyScore c) (\<lambda>e. e = Fit c')
      (concat (map (clf_calls n) pre) @ clf_calls n c @ concat (map (clf_calls n) post))"
  proof (rule preceded_append_none)
    show "\<forall>e \<in> set (concat (map (clf_calls n) pre)). \<not> e = Fit c'"
      using no_fit_pre by simp
    show "preceded (\<lambda>e. e = AccuracyScore c) (\<lambda>e. e = Fit c')
      (clf_calls n c @ concat (map (clf_calls n) post))"
      by (rule a1)
  qed
  then show "preceded (\<lambda>e. e = AccuracyScore c) (\<lambda>e. e = Fit c')
      (concat (map (clf_calls n) cs))"
    by (simp add: assms(2))
  have no_c_post: "\<forall>e \<in> set (concat (map (clf_calls n) post)). clf_of e \<noteq> Some c"
    using cp by (auto dest!: clf_calls_about)
  have "never_after (\<lambda>e. clf_of e = Some c) (\<lambda>e. e = Fit c')
      ((concat (map (clf_calls n) pre) @ clf_calls n c) @ concat (map (clf_calls n) post))"
  proof -
    have n1: "never_after (\<lambda>e. clf_of e = Some c) (\<lambda>e. e = Fit c')
        (concat (map (clf_calls n) pre) @ clf_calls n c)"
      by (rule never_after_no_Q) (use no_fit_pre no_fit_c in auto)
    have n2: "never_after (\<lambda>e. clf_of e = Some c) (\<lambda>e. e = Fit c')
        (concat (map (clf_calls n) post))"
      by (rule never_after_no_P) (use no_c_post in auto)
    show ?thesis
      by (rule never_after_appendI [OF n1 n2]) (use no_c_post in auto)
  qed
  then show "never_after (\<lambda>e. clf_of e = Some c) (\<lambda>e. e = Fit c')
      (concat (map (clf_calls n) cs))"
    by (simp only: split)
qed

section \<open>The events of script two\<close>

lemma emits_time: "P Time \<Longrightarrow> emits P (time_time lib)"
  by (simp add: emits_def)


lemma emits_get_data:
  assumes "\<And>s. P (FetchMldata s)" "\<And>n. P (Shuffle n)" "\<And>r n. P (TrainTestSplit r n)"
  shows "emits P (get_data lib)"
  unfolding get_data_def Let_def case_prod_beta
  by (intro emits_bindP emits_call emits_returnP assms)

lemma emits_predict_chunks:
  "(\<And>i. P (Predict c i)) \<Longrightarrow> emits P (predict_chunks lib c m xs js acc)"
  by (induction js arbitrary: acc) (simp_all add: emits_returnP emits_bindP emits_call)

lemma emits_analyze:
  assumes "\<And>s. hd s \<noteq> CHR ''<'' \<Longrightarrow> P (Stdout s)" "P Time" "\<And>i. P (Predict c i)"
    "P (ConfusionMatrix c)" "P (AccuracyScore c)"
  shows "emits P (analyze lib c m d ft nm)"
  unfolding analyze_def
  by (intro emits_bindP emits_call emits_returnP emits_time emits_print emits_predict_chunks
      assms) simp_all

lemma emits_fit_all:
  assumes "\<And>s. hd s \<noteq> CHR ''<'' \<Longrightarrow> P (Stdout s)" "P Time" "\<And>c. P (Fit c)"
    "\<And>c i. P (Predict c i)" "\<And>c. P (ConfusionMatrix c)" "\<And>c. P (AccuracyScore c)"
  shows "emits P (fit_all lib d cs cdata)"
proof (induction cs arbitrary: cdata)
  case Nil
  show ?case by (simp add: emits_returnP)
next
  case (Cons a cs)
  obtain nm c where a: "a = (nm, c)" by (cases a)
  show ?case
    unfolding a fit_all.simps
    by (intro emits_bindP emits_call emits_time emits_print emits_analyze Cons assms)
      simp_all
qed


lemma hd_table_head: "hd table_head = CHR ''<''"
  by (simp add: table_head_def)

lemma no_head_get_data: "Stdout table_head \<notin> set (snd (get_data lib h))"
proof -
  have "emits (\<lambda>e. e \<noteq> Stdout table_head) (get_data lib)"
    by (rule emits_get_data) simp_all
  then show ?thesis by (auto simp add: emits_def)
qed

lemma no_head_fit_all: "Stdout table_head \<notin> set (snd (fit_all lib d cs cdata h))"
proof -
  have "emits (\<lambda>e. e \<noteq> Stdout table_head) (fit_all lib d cs cdata)"
    by (rule emits_fit_all) (auto simp add: hd_table_head)
  then show ?thesis by (auto simp add: emits_def)
qed

lemma main_run:
  obtains (load) e where "fst (get_data lib h) = Inl e"
      "main lib h = (Inl e, snd (get_data lib h))"
  | (loop) d e where "fst (get_data lib h) = Inr d"
      "fst (fit_all lib d classifiers [] (h @ snd (get_data lib h))) = Inl e"
      "main lib h = (Inl e, snd (get_data lib h)
         @ snd (fit_all lib d classifiers [] (h @ snd (get_data lib h))))"
  | (report) d cdata where "fst (get_data lib h) = Inr d"
      "fst (fit_all lib d classifiers [] (h @ snd (get_data lib h))) = Inr cdata"
      "main lib h = (Inr (), snd (get_data lib h)
         @ snd (fit_all lib d classifiers [] (h @ snd (get_data lib h)))
         @ map Stdout (website_lines lib cdata))"
proof (cases "fst (get_data lib h)")
  case (Inl e)
  then have "main lib h = (Inl e, snd (get_data lib h))"
    by (simp add: main_def prod_eq_iff bindP_fst bindP_snd)
  with Inl show ?thesis by (rule load)
next
  case (Inr d)
  show ?thesis
  proof (cases "fst (fit_all lib d classifiers [] (h @ snd (get_data lib h)))")
    case (Inl e)
    then have "main lib h = (Inl e, snd (get_data lib h)
         @ snd (fit_all lib d classifiers [] (h @ snd (get_data lib h))))"
      using Inr by (simp add: main_def prod_eq_iff bindP_fst bindP_snd)
    with Inr Inl show ?thesis by (rule loop)
  next
    case cd: (Inr cdata)
    then have "main lib h = (Inr (), snd (get_data lib h)
         @ snd (fit_all lib d classifiers [] (h @ snd (get_data lib h)))
         @ map Stdout (website_lines lib cdata))"
      using Inr
      by (simp add: main_def prod_eq_iff bindP_fst bindP_snd print_website_def
          print_all_fst print_all_snd del: print_all.simps)
    with Inr cd show ?thesis by (rule report)
  qed
qed

lemma main_report_last:
  "(Stdout table_head \<in> set (snd (main lib h)) \<longrightarrow> fst (main lib h) = Inr ())
   \<and> (fst (main lib h) = Inr () \<longrightarrow>
        (\<exists>pre cdata. snd (main lib h) = pre @ map Stdout (website_lines lib cdata)
           \<and> Stdout table_head \<notin> set pre \<and> calls pre = calls (snd (main lib h))))"
proof (cases rule: main_run [of lib h])
  case (load e)
  then show ?thesis
    using no_head_get_data [of lib h] by simp
next
  case (loop d e)
  then show ?thesis
    using no_head_get_data [of lib h]
      no_head_fit_all [of lib d classifiers "[]" "h @ snd (get_data lib h)"]
    by simp
next
  case (report d cdata)
  let ?pre = "snd (get_data lib h)
         @ snd (fit_all lib d classifiers [] (h @ snd (get_data lib h)))"
  have a: "snd (main lib h) = ?pre @ map Stdout (website_lines lib cdata)"
    using report(3) by simp
  have b: "Stdout table_head \<notin> set ?pre"
    using no_head_get_data [of lib h]
      no_head_fit_all [of lib d classifiers "[]" "h @ snd (get_data lib h)"]
    by simp
  have c: "calls ?pre = calls (snd (main lib h))"
    using report(3) by simp
  have ok: "fst (main lib h) = Inr ()"
    using report(3) by simp
  from a b c
  have "\<exists>pre cdata. snd (main lib h) = pre @ map Stdout (website_lines lib cdata)
           \<and> Stdout table_head \<notin> set pre \<and> calls pre = calls (snd (main lib h))"
    by blast
  with ok show ?thesis by blast
qed

section \<open>The steps of script one\<close>

lemma follows_returnP: "follows (returnP x) []"
  by (simp add: follows_def)

lemma follows_print: "follows (print s) [''print'']"
  by (simp add: follows_def kind_of_def)

lemma follows_call: "kind_of ev = k \<Longrightarrow> follows (call ev r) [k]"
  by (auto simp add: follows_def)

lemma follows_the_model: "follows (the_model model) []"
  by (simp add: follows_def the_model_def returnP_def raiseP_def split: option.splits)

lemma follows_history_get: "follows (history_get hist k) []"
  by (simp add: follows_def history_get_def returnP_def raiseP_def split: option.splits)

lemma follows_bindP:
  assumes "follows m L1" and "\<And>x. follows (f x) L2"
  shows "follows (bindP m f) (L1 @ L2)"
  unfolding follows_def
proof (intro allI conjI impI)
  fix h
  show "prefix (map kind_of (snd (bindP m f h))) (L1 @ L2)"
  proof (cases "fst (m h)")
    case (Inl e)
    then show ?thesis
      using assms(1) by (simp add: bindP_snd follows_def prefix_def) (metis append.assoc)
  next
    case (Inr x)
    then have "map kind_of (snd (m h)) = L1"
      using assms(1) by (simp add: follows_def)
    then show ?thesis
      using Inr assms(2) [of x] by (simp add: bindP_snd follows_def)
  qed
next
  fix h x
  assume ok: "fst (bindP m f h) = Inr x"
  then obtain x0 where x0: "fst (m h) = Inr x0"
    by (auto simp add: bindP_fst split: sum.splits)
  then have "map kind_of (snd (m h)) = L1"
    using assms(1) by (simp add: follows_def)
  moreover have "map kind_of (snd (f x0 (h @ snd (m h)))) = L2"
    using ok x0 assms(2) [of x0] by (simp add: bindP_fst follows_def)
  ultimately show "map kind_of (snd (bindP m f h)) = L1 @ L2"
    using x0 by (simp add: bindP_snd)
qed

lemma follows_fit_augmented:
  "follows (fit_augmented lib model A B)
     ([''print''] @ [''ImageDataGenerator''] @ [''datagen.fit''] @ [''model.fit_generator'']
        @ [] @ [] @ [] @ [''open''] @ [])"
  unfolding fit_augmented_def Let_def case_prod_beta
  by (intro follows_bindP follows_print follows_call follows_returnP follows_history_get)
    (simp_all add: kind_of_def)

lemma follows_train: "follows (train lib) train_steps"
proof -
  have "follows (train lib)
     ([''gtsdb.load_data''] @ [''np_utils.to_categorical''] @ [''print''] @ [''print''] @ []
        @ [''np_utils.to_categorical''] @ [''K.image_dim_ordering'']
        @ ([''densenet.create_dense_net''] @ []) @ [''print''] @ [] @ [''model.summary'']
        @ [''model.compile''] @ [''print''] @ [''print''] @ [''astype''] @ [''astype'']
        @ ([''print''] @ [''ImageDataGenerator''] @ [''datagen.fit'']
             @ [''model.fit_generator''] @ [] @ [] @ [] @ [''open''] @ [])
        @ [''model.save''])"
    unfolding train_def train_with_def Let_def build_model_dense script_config_simps
      if_False if_True not_True_eq_False
    by (intro follows_bindP follows_print follows_call follows_returnP follows_the_model
        follows_fit_augmented)
      (simp_all add: kind_of_def)
  then show ?thesis
    by (simp add: train_steps_def)
qed

lemma preceded_transfer:
  assumes "prefix (calls tr) L" and "preceded P Q L" and "\<forall>e. Q e \<longrightarrow> is_call e"
  shows "preceded P Q tr"
proof -
  from assms(1) obtain zs where "L = calls tr @ zs"
    by (auto simp add: prefix_def)
  with assms(2) have "preceded P Q (calls tr)"
    by (simp add: preceded_prefix)
  with assms(3) show ?thesis
    by (rule preceded_calls)
qed

lemma never_after_transfer:
  assumes "prefix (calls tr) L" and "never_after P Q L"
    and "\<forall>e. P e \<longrightarrow> is_call e" and "\<forall>e. Q e \<longrightarrow> is_call e"
  shows "never_after P Q tr"
proof -
  from assms(1) obtain zs where "L = calls tr @ zs"
    by (auto simp add: prefix_def)
  with assms(2) have "never_after P Q (calls tr)"
    by (simp add: never_after_append)
  with assms(3,4) show ?thesis
    by (rule never_after_calls)
qed

lemma calls_fit_first:
  "preceded (\<lambda>e. e = Fit c) (\<lambda>e. clf_of e = Some c \<and> e \<noteq> Fit c)
     (data_calls @ concat (map (clf_calls n) cs))"
proof (rule preceded_append_none)
  show "\<forall>e \<in> set data_calls. \<not> (clf_of e = Some c \<and> e \<noteq> Fit c)"
    by (auto dest: data_calls_about)
  show "preceded (\<lambda>e. e = Fit c) (\<lambda>e. clf_of e = Some c \<and> e \<noteq> Fit c)
     (concat (map (clf_calls n) cs))"
    by (rule blocks_fit_first)
qed

lemma calls_eval_before_next:
  assumes "distinct cs" and "cs = pre @ c # post" and "c' \<in> set post"
  shows "preceded (\<lambda>e. e = AccuracyScore c) (\<lambda>e. e = Fit c')
      (data_calls @ concat (map (clf_calls n) cs))"
    and "never_after (\<lambda>e. clf_of e = Some c) (\<lambda>e. e = Fit c')
      (data_calls @ concat (map (clf_calls n) cs))"
proof -
  have nf: "\<forall>e \<in> set data_calls. \<not> e = Fit c'"
    by (auto simp add: data_calls_def)
  show "preceded (\<lambda>e. e = AccuracyScore c) (\<lambda>e. e = Fit c')
      (data_calls @ concat (map (clf_calls n) cs))"
    by (rule preceded_append_none [OF nf blocks_eval_before_next(1) [OF assms]])
  have "never_after (\<lambda>e. clf_of e = Some c) (\<lambda>e. e = Fit c') data_calls"
    by (rule never_after_no_Q [OF nf])
  with nf blocks_eval_before_next(2) [OF assms, of n]
  show "never_after (\<lambda>e. clf_of e = Some c) (\<lambda>e. e = Fit c')
      (data_calls @ concat (map (clf_calls n) cs))"
    by (simp add: never_after_append)
qed

text \<open>
  C8. Script two loads the data, then takes the classifiers one after the other, fitting
  and then evaluating each, and reports at the end. In every run the library calls are a
  prefix of: the three calls of \<^verbatim>\<open>get_data\<close>, then for each classifier of the list
  its \<^verbatim>\<open>fit\<close>, its chunked \<^verbatim>\<open>predict\<close>s, its confusion matrix and its accuracy.
  So \<^verbatim>\<open>fit\<close> on a classifier comes before every other call on it; a classifier later
  in the list is fitted only after the accuracy of an earlier one has been computed, and
  from then on nothing is called on the earlier one; and the head of the HTML table is
  printed only in a run that returns, after all those calls, the table being the end of the
  output. Script one makes its calls in the order of \<open>train_steps\<close>: load, encode the
  labels, build and compile the network, convert the images, fit (validation is part of
  \<^verbatim>\<open>fit_generator\<close>; there is no call that evaluates), write the history, save.
\<close>

theorem scripts_follow_linear_shape:
  "(\<exists>n. prefix (calls (snd (script_two argv lib)))
          (data_calls @ concat (map (clf_calls n) (map snd classifiers))))
   \<and> (\<forall>c. preceded (\<lambda>e. e = Fit c) (\<lambda>e. clf_of e = Some c \<and> e \<noteq> Fit c)
          (snd (script_two argv lib)))
   \<and> (\<forall>pre c post c'. map snd classifiers = pre @ c # post \<and> c' \<in> set post \<longrightarrow>
          preceded (\<lambda>e. e = AccuracyScore c) (\<lambda>e. e = Fit c') (snd (script_two argv lib))
        \<and> never_after (\<lambda>e. clf_of e = Some c) (\<lambda>e. e = Fit c') (snd (script_two argv lib)))
   \<and> (Stdout table_head \<in> set (snd (script_two argv lib)) \<longrightarrow>
          fst (script_two argv lib) = Inr ())
   \<and> (fst (script_two argv lib) = Inr () \<longrightarrow>
          (\<exists>pre cdata n.
              snd (script_two argv lib) = pre @ map Stdout (website_lines lib cdata)
            \<and> Stdout table_head \<notin> set pre
            \<and> calls pre = data_calls @ concat (map (clf_calls n) (map snd classifiers))))
   \<and> prefix (map kind_of (snd (script_one argv klib))) train_steps
   \<and> (fst (script_one argv klib) = Inr () \<longrightarrow>
          map kind_of (snd (script_one argv klib)) = train_steps)"
proof -
  from main_calls [of lib "[]"] obtain n where
    p: "prefix (calls (snd (main lib [])))
          (data_calls @ concat (map (clf_calls n) (map snd classifiers)))"
    and q: "fst (main lib []) = Inr () \<longrightarrow>
          calls (snd (main lib [])) = data_calls @ concat (map (clf_calls n) (map snd classifiers))"
    by blast
  have 1: "\<exists>n. prefix (calls (snd (script_two argv lib)))
          (data_calls @ concat (map (clf_calls n) (map snd classifiers)))"
    using p by (auto simp add: script_two_def)
  have 2: "\<forall>c. preceded (\<lambda>e. e = Fit c) (\<lambda>e. clf_of e = Some c \<and> e \<noteq> Fit c)
          (snd (script_two argv lib))"
    unfolding script_two_def
    by (intro allI preceded_transfer [OF p calls_fit_first]) (auto dest: clf_of_is_call)
  have 3: "preceded (\<lambda>e. e = AccuracyScore c) (\<lambda>e. e = Fit c') (snd (script_two argv lib))
        \<and> never_after (\<lambda>e. clf_of e = Some c) (\<lambda>e. e = Fit c') (snd (script_two argv lib))"
    if "map snd classifiers = pre @ c # post \<and> c' \<in> set post" for pre c post c'
  proof -
    from that have s: "map snd classifiers = pre @ c # post" and m: "c' \<in> set post"
      by simp_all
    note o = calls_eval_before_next [OF classifiers_distinct(1) s m, of n]
    have "preceded (\<lambda>e. e = AccuracyScore c) (\<lambda>e. e = Fit c') (snd (main lib []))"
      by (rule preceded_transfer [OF p o(1)]) (simp add: is_call_def)
    moreover
    have "never_after (\<lambda>e. clf_of e = Some c) (\<lambda>e. e = Fit c') (snd (main lib []))"
      by (rule never_after_transfer [OF p o(2)]) (auto dest: clf_of_is_call simp add: is_call_def)
    ultimately show ?thesis
      by (simp add: script_two_def)
  qed
  note r = main_report_last [of lib "[]"]
  have 4: "Stdout table_head \<in> set (snd (script_two argv lib)) \<longrightarrow>
          fst (script_two argv lib) = Inr ()"
    using r by (simp add: script_two_def)
  have 5: "\<exists>pre cdata n.
              snd (script_two argv lib) = pre @ map Stdout (website_lines lib cdata)
            \<and> Stdout table_head \<notin> set pre
            \<and> calls pre = data_calls @ concat (map (clf_calls n) (map snd classifiers))"
    if ok: "fst (script_two argv lib) = Inr ()"
  proof -
    from ok have ok': "fst (main lib []) = Inr ()"
      by (simp add: script_two_def)
    with r obtain pre cdata where
      a: "snd (main lib []) = pre @ map Stdout (website_lines lib cdata)"
      and b: "Stdout table_head \<notin> set pre"
      and c: "calls pre = calls (snd (main lib []))"
      by blast
    from c q ok' have "calls pre = data_calls @ concat (map (clf_calls n) (map snd classifiers))"
      by simp
    with a b show ?thesis
      unfolding script_two_def by blast
  qed
  have 6: "prefix (map kind_of (snd (script_one argv klib))) train_steps"
    and 7: "fst (script_one argv klib) = Inr () \<longrightarrow>
          map kind_of (snd (script_one argv klib)) = train_steps"
    using follows_train [of klib] by (simp_all add: follows_def script_one_def)
  from 1 2 3 4 5 6 7 show ?thesis
    by blast
qed

theorem scripts_follow_linear_shape_witness:
  "fst (script_two [] sample_lib) = Inr ()
   \<and> fst (script_one [] sample_keras) = Inr ()
   \<and> map kind_of (snd (script_one [] sample_keras)) = train_steps
   \<and> preceded (\<lambda>e. e = AccuracyScore (snd (classifiers ! 0)))
        (\<lambda>e. e = Fit (snd (classifiers ! 1))) (snd (script_two [] sample_lib))
   \<and> Stdout table_head \<in> set (snd (script_two [] sample_lib))"
proof -
  note t = scripts_follow_linear_shape
    [where argv = "[]" and lib = sample_lib and klib = sample_keras]
  have ok2: "fst (script_two [] sample_lib) = Inr ()"
    by (rule sample_lib_runs)
  have ok1: "fst (script_one [] sample_keras) = Inr ()"
    by (rule sample_keras_runs)
  from t ok1 have steps: "map kind_of (snd (script_one [] sample_keras)) = train_steps"
    by blast
  have s: "map snd classifiers
      = [] @ snd (classifiers ! 0) # tl (map snd classifiers)
      \<and> snd (classifiers ! 1) \<in> set (tl (map snd classifiers))"
    by (simp add: classifiers_def)
  from t [THEN conjunct2, THEN conjunct2, THEN conjunct1, rule_format, OF s]
  have order: "preceded (\<lambda>e. e = AccuracyScore (snd (classifiers ! 0)))
        (\<lambda>e. e = Fit (snd (classifiers ! 1))) (snd (script_two [] sample_lib))"
    by (rule conjunct1)
  from t ok2 obtain pre cdata where
    "snd (script_two [] sample_lib) = pre @ map Stdout (website_lines sample_lib cdata)"
    by blast
  then have head: "Stdout table_head \<in> set (snd (script_two [] sample_lib))"
    by (simp add: website_lines_def)
  show ?thesis
    by (rule conjI ok2 ok1 steps order head)+
qed

section \<open>Runs that raise\<close>




























section \<open>The report of a run of script two\<close>















end
